theory Spec2Isabelle
  imports Complex_Main "HOL-Library.Word" "HOL-Library.Signed_Division"
begin

section \<open>Machine integers of the C source\<close>

text \<open>
  \<^verbatim>\<open>FreeRTOS_POSIX_utils.c\<close> computes on fixed-width C integers. They are modelled as
  machine words: \<open>+\<close>, \<open>-\<close> and \<open>*\<close> wrap around, \<open>sint\<close> reads a word as a signed
  (two's complement) value, \<open>uint\<close> as an unsigned one, \<open><s\<close> and \<open>\<le>s\<close> are the signed
  comparisons. Signed overflow, which C leaves undefined, wraps in the model.
\<close>

text \<open>
  Modelled from the spec: the declarations of \<^verbatim>\<open>time_t\<close> and \<^verbatim>\<open>TickType_t\<close> and the width
  of \<^verbatim>\<open>long\<close> come from headers and from the compiler, which are not among the sources.
  The specification has the seconds as a signed 64-bit integer, the nanoseconds as a
  signed \<^verbatim>\<open>long\<close> and the tick count as an unsigned integer of the platform's tick
  width. The model takes \<^verbatim>\<open>time_t\<close> as \<^verbatim>\<open>int64_t\<close>, and the widths of the 32-bit targets
  of the repository: \<^verbatim>\<open>long\<close> has 32 bits and \<^verbatim>\<open>TickType_t\<close> is \<^verbatim>\<open>uint32_t\<close>. The C type
  \<^verbatim>\<open>int\<close> only carries the status codes \<open>-1\<close>, \<open>0\<close>, \<open>1\<close>, \<^verbatim>\<open>EINVAL\<close> and
  \<^verbatim>\<open>ETIMEDOUT\<close>, on which no arithmetic is done; it is modelled by \<open>int\<close>.
\<close>

type_synonym int64_t = "64 word"
type_synonym uint64_t = "64 word"
type_synonym time_t = "64 word"
type_synonym long = "32 word"
type_synonym TickType_t = "32 word"

text \<open>
  C's \<^verbatim>\<open>/\<close> and \<^verbatim>\<open>%\<close> on signed operands truncate towards zero, as \<open>sdiv\<close> and \<open>smod\<close>
  on \<open>int\<close> do. Every use in the source has a divisor that the model has checked to be
  non-zero, or that is the constant \<^verbatim>\<open>NANOSECONDS_PER_SECOND\<close>.
\<close>

definition c_div :: "'a::len word \<Rightarrow> 'a word \<Rightarrow> 'a word" where
  "c_div a b = word_of_int (sint a sdiv sint b)"

definition c_mod :: "'a::len word \<Rightarrow> 'a word \<Rightarrow> 'a word" where
  "c_mod a b = word_of_int (sint a smod sint b)"

text \<open>The casts of the source: \<^verbatim>\<open>( long )\<close> of a 64-bit value keeps the low 32 bits,
  \<^verbatim>\<open>( int64_t )\<close>, \<^verbatim>\<open>( time_t )\<close> and \<^verbatim>\<open>( uint64_t )\<close> of a \<^verbatim>\<open>long\<close> extend its sign,
  \<^verbatim>\<open>( TickType_t )\<close> of a \<^verbatim>\<open>uint64_t\<close> keeps the low 32 bits.\<close>

definition to_long :: "int64_t \<Rightarrow> long" where
  "to_long v = ucast v"

definition long_to_int64 :: "long \<Rightarrow> int64_t" where
  "long_to_int64 v = scast v"

definition to_TickType :: "uint64_t \<Rightarrow> TickType_t" where
  "to_TickType v = ucast v"

section \<open>Constants of the headers\<close>

text \<open>
  Modelled from the spec: \<^verbatim>\<open>FreeRTOS_POSIX/time.h\<close> and \<^verbatim>\<open>FreeRTOS_POSIX/errno.h\<close>
  are not among the sources. \<^verbatim>\<open>NANOSECONDS_PER_SECOND\<close> is \<open>1000000000\<close>, a
  \<^verbatim>\<open>long long\<close>, as the specification and the comment in \<^verbatim>\<open>UTILS_ValidateTimespec\<close>
  say. \<^verbatim>\<open>EINVAL\<close> and \<^verbatim>\<open>ETIMEDOUT\<close> are the positive POSIX error codes for an invalid
  argument and for a timeout, with their usual numbers; the properties below only rest
  on their being positive and different.
\<close>

definition NANOSECONDS_PER_SECOND :: int64_t where
  "NANOSECONDS_PER_SECOND = 1000000000"

definition EINVAL :: int where
  "EINVAL = 22"

definition ETIMEDOUT :: int where
  "ETIMEDOUT = 116"

text \<open>
  The kernel configuration: \<^verbatim>\<open>configTICK_RATE_HZ\<close> as the source uses it, converted to
  \<^verbatim>\<open>uint64_t\<close>, and \<^verbatim>\<open>NANOSECONDS_PER_TICK\<close> as the source uses it, converted to
  \<^verbatim>\<open>long\<close>. Both are fixed per build and are parameters of the model.
\<close>

record config =
  configTICK_RATE_HZ :: uint64_t
  NANOSECONDS_PER_TICK :: long

section \<open>Memory\<close>

text \<open>
  A pointer is \<open>NULL\<close> or the address of an object. The objects of type
  \<^verbatim>\<open>struct timespec\<close> live in a store from addresses to values, those of type
  \<^verbatim>\<open>TickType_t\<close> in a store of their own. Two pointers with the same address alias.
\<close>

datatype 'a ptr = NULL | Ptr 'a

record timespec =
  tv_sec :: time_t
  tv_nsec :: long

type_synonym 'a timespecs = "'a \<Rightarrow> timespec"
type_synonym 'b ticks = "'b \<Rightarrow> TickType_t"

text \<open>The assignments \<^verbatim>\<open>p->tv_sec = v\<close> and \<^verbatim>\<open>p->tv_nsec = v\<close>.\<close>

definition set_tv_sec :: "'a \<Rightarrow> time_t \<Rightarrow> 'a timespecs \<Rightarrow> 'a timespecs" where
  "set_tv_sec p v m = m(p := (m p)\<lparr>tv_sec := v\<rparr>)"

definition set_tv_nsec :: "'a \<Rightarrow> long \<Rightarrow> 'a timespecs \<Rightarrow> 'a timespecs" where
  "set_tv_nsec p v m = m(p := (m p)\<lparr>tv_nsec := v\<rparr>)"

section \<open>The functions of \<^verbatim>\<open>FreeRTOS_POSIX_utils.c\<close>\<close>

subsection \<open>\<^verbatim>\<open>UTILS_ValidateTimespec\<close>\<close>

fun UTILS_ValidateTimespec :: "'a ptr \<Rightarrow> 'a timespecs \<Rightarrow> bool" where
  "UTILS_ValidateTimespec NULL m = False"
| "UTILS_ValidateTimespec (Ptr pxTimespec) m =
     (if 0 \<le>s tv_nsec (m pxTimespec)
         \<and> long_to_int64 (tv_nsec (m pxTimespec)) <s NANOSECONDS_PER_SECOND
      then True else False)"

subsection \<open>\<^verbatim>\<open>UTILS_TimespecCompare\<close>\<close>

fun UTILS_TimespecCompare :: "'a ptr \<Rightarrow> 'a ptr \<Rightarrow> 'a timespecs \<Rightarrow> int" where
  "UTILS_TimespecCompare NULL NULL m = 0"
| "UTILS_TimespecCompare (Ptr x) NULL m = 1"
| "UTILS_TimespecCompare NULL (Ptr y) m = - 1"
| "UTILS_TimespecCompare (Ptr x) (Ptr y) m =
     (if tv_sec (m y) <s tv_sec (m x) then 1
      else if tv_sec (m x) <s tv_sec (m y) then - 1
      else if tv_nsec (m y) <s tv_nsec (m x) then 1
      else if tv_nsec (m x) <s tv_nsec (m y) then - 1
      else 0)"

subsection \<open>\<^verbatim>\<open>UTILS_TimespecSubtract\<close>\<close>

text \<open>
  The function returns its status and the store it leaves. Each assignment of the source
  is one update of the store, in the source's order, and every read goes to the store as
  it is at that point, so that \<open>pxResult\<close> may alias \<open>x\<close> or \<open>y\<close>.
\<close>

fun UTILS_TimespecSubtract ::
  "'a ptr \<Rightarrow> 'a ptr \<Rightarrow> 'a ptr \<Rightarrow> 'a timespecs \<Rightarrow> int \<times> 'a timespecs" where
  "UTILS_TimespecSubtract (Ptr x) (Ptr y) (Ptr pxResult) m =
     (let iCompareResult = UTILS_TimespecCompare (Ptr x) (Ptr y) m in
      if iCompareResult = - 1 then (1, m)
      else if iCompareResult = 0 then
        (let m1 = set_tv_sec pxResult 0 m;
             m2 = set_tv_nsec pxResult 0 m1
         in (0, m2))
      else
        (let m1 = set_tv_sec pxResult (tv_sec (m x) - tv_sec (m y)) m;
             m2 = set_tv_nsec pxResult (tv_nsec (m1 x) - tv_nsec (m1 y)) m1;
             m4 = (if tv_nsec (m2 pxResult) <s 0 then
                     (let m3 = set_tv_sec pxResult (tv_sec (m2 pxResult) - 1) m2
                      in set_tv_nsec pxResult
                           (tv_nsec (m3 pxResult) + to_long NANOSECONDS_PER_SECOND) m3)
                   else m2)
         in if tv_nsec (m4 pxResult) <s 0 then (- 1, m4) else (0, m4)))"
| "UTILS_TimespecSubtract x y pxResult m = (- 1, m)"

subsection \<open>\<^verbatim>\<open>UTILS_NanosecondsToTimespec\<close>\<close>

text \<open>
  The source dereferences \<open>pxDestination\<close> without a check: the function is only defined
  on the address of an object, which is what the model takes.
\<close>

definition UTILS_NanosecondsToTimespec :: "int64_t \<Rightarrow> 'a \<Rightarrow> 'a timespecs \<Rightarrow> 'a timespecs" where
  "UTILS_NanosecondsToTimespec llSource pxDestination m =
     (let m1 = set_tv_sec pxDestination (c_div llSource NANOSECONDS_PER_SECOND) m;
          m2 = set_tv_nsec pxDestination (to_long (c_mod llSource NANOSECONDS_PER_SECOND)) m1
      in if tv_nsec (m2 pxDestination) <s 0 then
           (let lCarrySec = c_div (tv_nsec (m2 pxDestination)) (to_long NANOSECONDS_PER_SECOND) + 1;
                m3 = set_tv_sec pxDestination
                       (tv_sec (m2 pxDestination) - long_to_int64 lCarrySec) m2
            in set_tv_nsec pxDestination
                 (tv_nsec (m3 pxDestination) + lCarrySec * to_long NANOSECONDS_PER_SECOND) m3)
         else m2)"

subsection \<open>\<^verbatim>\<open>UTILS_TimespecAdd\<close>\<close>

fun UTILS_TimespecAdd ::
  "'a ptr \<Rightarrow> 'a ptr \<Rightarrow> 'a ptr \<Rightarrow> 'a timespecs \<Rightarrow> int \<times> 'a timespecs" where
  "UTILS_TimespecAdd (Ptr x) (Ptr y) (Ptr pxResult) m =
     (let llResult64 =
            (tv_sec (m x) * NANOSECONDS_PER_SECOND + long_to_int64 (tv_nsec (m x)))
            + (tv_sec (m y) * NANOSECONDS_PER_SECOND + long_to_int64 (tv_nsec (m y)))
      in (if llResult64 <s 0 then 1 else 0,
          UTILS_NanosecondsToTimespec llResult64 pxResult m))"
| "UTILS_TimespecAdd x y pxResult m = (- 1, m)"

subsection \<open>\<^verbatim>\<open>UTILS_TimespecToTicks\<close>\<close>

text \<open>
  The function reads the store of timespecs and writes the store of tick counts; it
  returns its status and the tick store it leaves. The division by
  \<^verbatim>\<open>NANOSECONDS_PER_TICK\<close> is undefined in C when that constant is zero: the model then
  returns \<open>None\<close>.
\<close>

fun UTILS_TimespecToTicks ::
  "config \<Rightarrow> 'a ptr \<Rightarrow> 'b ptr \<Rightarrow> 'a timespecs \<Rightarrow> 'b ticks \<Rightarrow> (int \<times> 'b ticks) option" where
  "UTILS_TimespecToTicks cfg (Ptr pxTimespec) (Ptr pxResult) m t =
     (if UTILS_ValidateTimespec (Ptr pxTimespec) m = False then Some (EINVAL, t)
      else if NANOSECONDS_PER_TICK cfg = 0 then None
      else
        (let ullTotalTicks = configTICK_RATE_HZ cfg * tv_sec (m pxTimespec);
             lNanoseconds =
               c_div (tv_nsec (m pxTimespec)) (NANOSECONDS_PER_TICK cfg)
               + (if c_mod (tv_nsec (m pxTimespec)) (NANOSECONDS_PER_TICK cfg) = 0
                  then 0 else 1);
             ullTotalTicks = ullTotalTicks + long_to_int64 lNanoseconds
         in Some (0, t(pxResult := to_TickType ullTotalTicks))))"
| "UTILS_TimespecToTicks cfg pxTimespec pxResult m t = Some (EINVAL, t)"

subsection \<open>\<^verbatim>\<open>UTILS_AbsoluteTimespecToDeltaTicks\<close>\<close>

text \<open>
  The function has a local \<^verbatim>\<open>struct timespec xDifference = { 0 }\<close> whose address it passes
  on. Inside the call the store holds the caller's objects and this local one: an address
  is \<open>Caller a\<close> for an object \<open>a\<close> of the caller, or \<open>xDifference\<close>. The caller's
  timespecs are only read, so the function returns its status and the tick store.
\<close>

datatype 'a frame = Caller 'a | xDifference

definition enter_frame :: "'a timespecs \<Rightarrow> 'a frame timespecs" where
  "enter_frame m = (\<lambda>a. case a of Caller c \<Rightarrow> m c
                              | xDifference \<Rightarrow> \<lparr>tv_sec = 0, tv_nsec = 0\<rparr>)"

fun caller_ptr :: "'a ptr \<Rightarrow> 'a frame ptr" where
  "caller_ptr NULL = NULL"
| "caller_ptr (Ptr p) = Ptr (Caller p)"

definition UTILS_AbsoluteTimespecToDeltaTicks ::
  "config \<Rightarrow> 'a ptr \<Rightarrow> 'a ptr \<Rightarrow> 'b ptr \<Rightarrow> 'a timespecs \<Rightarrow> 'b ticks \<Rightarrow> (int \<times> 'b ticks) option" where
  "UTILS_AbsoluteTimespecToDeltaTicks cfg pxAbsoluteTime pxCurrentTime pxResult m t =
     (let iStatus = (if pxAbsoluteTime = NULL \<or> pxCurrentTime = NULL \<or> pxResult = NULL
                     then EINVAL else 0);
          (iStatus, fr) =
            (if iStatus = 0 then
               (let (iStatus, fr) =
                      UTILS_TimespecSubtract (caller_ptr pxAbsoluteTime)
                        (caller_ptr pxCurrentTime) (Ptr xDifference) (enter_frame m)
                in (if iStatus = 1 then ETIMEDOUT
                    else if iStatus = - 1 then EINVAL
                    else iStatus, fr))
             else (iStatus, enter_frame m))
      in if iStatus = 0 then UTILS_TimespecToTicks cfg (Ptr xDifference) pxResult fr t
         else Some (iStatus, t))"

section \<open>Notions used to state the properties\<close>

text \<open>
  A timespec is normalized when \<open>0 \<le> tv_nsec < 1000000000\<close>; its total number of
  nanoseconds is the integer \<open>tv_sec * 1000000000 + tv_nsec\<close>, both fields read as signed
  values. Both are abbreviations: a statement that uses them is a statement about the
  fields.
\<close>

abbreviation normalized :: "timespec \<Rightarrow> bool" where
  "normalized ts \<equiv> 0 \<le> sint (tv_nsec ts) \<and> sint (tv_nsec ts) < 1000000000"

abbreviation total_ns :: "timespec \<Rightarrow> int" where
  "total_ns ts \<equiv> sint (tv_sec ts) * 1000000000 + sint (tv_nsec ts)"

text \<open>
  The number of ticks of a timespec in exact arithmetic: the seconds times the tick rate,
  plus the nanoseconds divided by the nanoseconds per tick and rounded up. An
  abbreviation as well.
\<close>

abbreviation exact_ticks :: "config \<Rightarrow> timespec \<Rightarrow> int" where
  "exact_ticks cfg ts \<equiv>
     sint (tv_sec ts) * uint (configTICK_RATE_HZ cfg)
     + \<lceil>real_of_int (sint (tv_nsec ts)) / real_of_int (sint (NANOSECONDS_PER_TICK cfg))\<rceil>"

text \<open>Memories for the worked examples: every object holds zero.\<close>

definition zero_timespecs :: "nat \<Rightarrow> timespec" where
  "zero_timespecs = (\<lambda>a. \<lparr>tv_sec = 0, tv_nsec = 0\<rparr>)"

definition zero_ticks :: "nat \<Rightarrow> TickType_t" where
  "zero_ticks = (\<lambda>a. 0)"

section \<open>Auxiliary facts\<close>

subsection \<open>Truncating division, signed values and casts\<close>

lemma sdiv_pos_divisor:
  fixes n b :: int
  assumes "0 < b"
  shows "n sdiv b = (if n < 0 \<and> \<not> b dvd n then n div b + 1 else n div b)"
  using assms by (auto simp: signed_divide_int_eq_divide_int sgn_if)

lemma smod_pos_divisor:
  fixes n b :: int
  assumes "0 < b"
  shows "n smod b = (if n < 0 \<and> \<not> b dvd n then n mod b - b else n mod b)"
  using assms by (auto simp: signed_modulo_int_eq_modulo_int sgn_if)

lemma sint_wi_64:
  "- (2 ^ 63) \<le> k \<Longrightarrow> k < 2 ^ 63 \<Longrightarrow> sint (word_of_int k :: 64 word) = k"
  by (simp add: sint_sbintrunc' signed_take_bit_int_eq_self)

lemma sint_wi_32:
  "- (2 ^ 31) \<le> k \<Longrightarrow> k < 2 ^ 31 \<Longrightarrow> sint (word_of_int k :: 32 word) = k"
  by (simp add: sint_sbintrunc' signed_take_bit_int_eq_self)

lemma sint_range_64: "- 9223372036854775808 \<le> sint (w :: 64 word) \<and> sint w < 9223372036854775808"
  using sint_ge [of w] sint_lt [of w] by simp

lemma sint_range_32: "- 2147483648 \<le> sint (w :: 32 word) \<and> sint w < 2147483648"
  using sint_ge [of w] sint_lt [of w] by simp

lemma long_to_int64_sint: "sint (long_to_int64 v) = sint v"
  by (simp add: long_to_int64_def sint_up_scast is_up)

lemma long_to_int64_wi: "long_to_int64 v = word_of_int (sint v)"
  unfolding long_to_int64_def by (rule scast_eq)

lemma to_long_wi: "to_long (word_of_int k) = word_of_int k"
  unfolding to_long_def by (rule ucast_down_wi) (simp add: is_down)

lemma to_long_NPS: "to_long NANOSECONDS_PER_SECOND = 1000000000"
  by (simp add: to_long_def NANOSECONDS_PER_SECOND_def)

lemma c_div_NPS:
  "c_div (n :: 64 word) NANOSECONDS_PER_SECOND = word_of_int (sint n sdiv 1000000000)"
  by (simp add: c_div_def NANOSECONDS_PER_SECOND_def)

lemma c_mod_NPS:
  "c_mod (n :: 64 word) NANOSECONDS_PER_SECOND = word_of_int (sint n smod 1000000000)"
  by (simp add: c_mod_def NANOSECONDS_PER_SECOND_def)

lemma c_div_long_NPS:
  "c_div (v :: 32 word) (to_long NANOSECONDS_PER_SECOND) = word_of_int (sint v sdiv 1000000000)"
  by (simp add: c_div_def to_long_NPS)

subsection \<open>\<^verbatim>\<open>UTILS_NanosecondsToTimespec\<close> in closed form\<close>

text \<open>
  The function computes the floor quotient and the non-negative remainder: C's truncating
  division followed by the carry of one second when the remainder is negative.
\<close>

lemma timespec_update_both:
  "(r :: timespec)\<lparr>tv_sec := a, tv_nsec := b\<rparr> = \<lparr>tv_sec = a, tv_nsec = b\<rparr>"
  by (cases r) simp

lemma sdiv_small:
  fixes x b :: int
  assumes "\<bar>x\<bar> < b"
  shows "x sdiv b = 0"
proof -
  have "\<bar>x\<bar> div \<bar>b\<bar> = 0" using assms by (intro div_pos_pos_trivial) simp_all
  then show ?thesis by (simp add: signed_divide_int_def)
qed

lemma NanosecondsToTimespec_eq:
  "UTILS_NanosecondsToTimespec n p m =
     m(p := \<lparr>tv_sec = word_of_int (sint n div 1000000000),
              tv_nsec = word_of_int (sint n mod 1000000000)\<rparr>)"
proof -
  define k where "k = sint n"
  define b :: int where "b = 1000000000"
  have b: "0 < b" by (simp add: b_def)
  have r: "0 \<le> k mod b" "k mod b < b" using b by simp_all
  have q: "c_div n NANOSECONDS_PER_SECOND = word_of_int (k sdiv b)"
    by (simp add: c_div_NPS k_def b_def)
  have rm: "to_long (c_mod n NANOSECONDS_PER_SECOND) = word_of_int (k smod b)"
    by (simp add: c_mod_NPS k_def b_def to_long_wi)
  show ?thesis
  proof (cases "k < 0 \<and> \<not> b dvd k")
    case True
    then have sm: "k smod b = k mod b - b" and sd: "k sdiv b = k div b + 1"
      using b by (simp_all add: sdiv_pos_divisor smod_pos_divisor)
    have "k mod b \<noteq> 0" using True by (simp add: dvd_eq_mod_eq_0)
    then have neg: "k mod b - b < 0" "- b < k mod b - b" using r by simp_all
    have s1: "sint (word_of_int (k mod b - b) :: 32 word) = k mod b - b"
      using neg by (intro sint_wi_32) (simp_all add: b_def)
    have "(k mod b - b) sdiv b = 0"
      using neg b by (intro sdiv_small) linarith
    then have carry: "c_div (word_of_int (k mod b - b) :: 32 word) (to_long NANOSECONDS_PER_SECOND) = 0"
      unfolding c_div_long_NPS s1 by (simp add: b_def)
    have lt: "(word_of_int (k mod b - b) :: 32 word) <s 0"
      unfolding word_sless_alt s1 using neg by simp
    have e1: "(word_of_int (k div b + 1) :: 64 word) - long_to_int64 1 = word_of_int (k div b)"
      by (simp add: long_to_int64_def)
    have e2: "(word_of_int (k mod b - b) :: 32 word) + to_long NANOSECONDS_PER_SECOND = word_of_int (k mod b)"
      by (simp add: to_long_NPS b_def)
    show ?thesis
      unfolding UTILS_NanosecondsToTimespec_def Let_def set_tv_sec_def set_tv_nsec_def q rm sm sd
      using lt carry e1 e2 by (simp add: fun_upd_same k_def b_def timespec_update_both)
  next
    case False
    then have sm: "k smod b = k mod b" and sd: "k sdiv b = k div b"
      using b by (simp_all add: sdiv_pos_divisor smod_pos_divisor)
    have s1: "sint (word_of_int (k mod b) :: 32 word) = k mod b"
      using r by (intro sint_wi_32) (simp_all add: b_def)
    have lt: "\<not> (word_of_int (k mod b) :: 32 word) <s 0"
      unfolding word_sless_alt s1 using r by simp
    show ?thesis
      unfolding UTILS_NanosecondsToTimespec_def Let_def set_tv_sec_def set_tv_nsec_def q rm sm sd
      using lt by (simp add: fun_upd_same k_def b_def timespec_update_both)
  qed
qed

lemma total_ns_word:
  "tv_sec ts * NANOSECONDS_PER_SECOND + long_to_int64 (tv_nsec ts) = word_of_int (total_ns ts)"
  by (simp add: long_to_int64_wi NANOSECONDS_PER_SECOND_def)

lemma sint_wi_div_64:
  "sint (word_of_int (sint (n :: 64 word) div 1000000000) :: 64 word) = sint n div 1000000000"
proof -
  have "- 9223372036854775808 \<le> sint n" "sint n < 9223372036854775808"
    using sint_range_64 [of n] by simp_all
  then have "- (2 ^ 63) \<le> sint n div 1000000000" "sint n div 1000000000 < 2 ^ 63"
    by simp_all
  then show ?thesis by (rule sint_wi_64)
qed

lemma sint_wi_mod_32:
  "sint (word_of_int (k mod 1000000000) :: 32 word) = k mod 1000000000"
  by (rule sint_wi_32) (simp_all add: order_trans [OF _ pos_mod_sign] order_less_trans [OF pos_mod_bound])

lemma NanosecondsToTimespec_normalized:
  "normalized (UTILS_NanosecondsToTimespec n p m p)"
  by (simp add: NanosecondsToTimespec_eq sint_wi_mod_32)

lemma NanosecondsToTimespec_total:
  "total_ns (UTILS_NanosecondsToTimespec n p m p) = sint n"
  by (simp add: NanosecondsToTimespec_eq sint_wi_mod_32 sint_wi_div_64)

lemma NanosecondsToTimespec_frame:
  "a \<noteq> p \<Longrightarrow> UTILS_NanosecondsToTimespec n p m a = m a"
  by (simp add: NanosecondsToTimespec_eq)

lemma div_mod_normalized:
  fixes s r :: int
  assumes "0 \<le> r" "r < 1000000000"
  shows "(s * 1000000000 + r) div 1000000000 = s" "(s * 1000000000 + r) mod 1000000000 = r"
  using assms by simp_all

lemma NanosecondsToTimespec_roundtrip:
  assumes "normalized t" "- (2 ^ 63) \<le> total_ns t" "total_ns t < 2 ^ 63"
  shows "UTILS_NanosecondsToTimespec (tv_sec t * NANOSECONDS_PER_SECOND + long_to_int64 (tv_nsec t)) p m p = t"
proof -
  have "sint (word_of_int (total_ns t) :: 64 word) = total_ns t"
    using assms(2,3) by (rule sint_wi_64)
  then show ?thesis
    unfolding total_ns_word NanosecondsToTimespec_eq using assms(1)
    by (cases t) (simp add: div_mod_normalized)
qed

lemma NanosecondsToTimespec_minus_one:
  "UTILS_NanosecondsToTimespec (- 1) p m p = \<lparr>tv_sec = - 1, tv_nsec = 999999999\<rparr>"
  by (simp add: NanosecondsToTimespec_eq)

subsection \<open>Comparison and subtraction\<close>

text \<open>
  The comparison on signed values, and the three outcomes of the subtraction. The facts
  hold whether or not \<open>pxResult\<close> aliases an operand.
\<close>

lemma Compare_Ptr:
  "UTILS_TimespecCompare (Ptr x) (Ptr y) m =
     (if sint (tv_sec (m y)) < sint (tv_sec (m x)) then 1
      else if sint (tv_sec (m x)) < sint (tv_sec (m y)) then - 1
      else if sint (tv_nsec (m y)) < sint (tv_nsec (m x)) then 1
      else if sint (tv_nsec (m x)) < sint (tv_nsec (m y)) then - 1
      else 0)"
  by (simp add: word_sless_alt)

lemma Subtract_less:
  "UTILS_TimespecCompare (Ptr x) (Ptr y) m = - 1 \<Longrightarrow>
   UTILS_TimespecSubtract (Ptr x) (Ptr y) (Ptr r) m = (1, m)"
  by (simp del: UTILS_TimespecCompare.simps)

lemma Subtract_equal:
  "UTILS_TimespecCompare (Ptr x) (Ptr y) m = 0 \<Longrightarrow>
   UTILS_TimespecSubtract (Ptr x) (Ptr y) (Ptr r) m = (0, m(r := \<lparr>tv_sec = 0, tv_nsec = 0\<rparr>))"
  by (simp del: UTILS_TimespecCompare.simps add: set_tv_sec_def set_tv_nsec_def timespec_update_both)

lemma Subtract_greater:
  assumes "UTILS_TimespecCompare (Ptr x) (Ptr y) m = 1"
  shows "UTILS_TimespecSubtract (Ptr x) (Ptr y) (Ptr r) m =
     (if tv_nsec (m x) - tv_nsec (m y) <s 0
      then (if tv_nsec (m x) - tv_nsec (m y) + 1000000000 <s 0 then - 1 else 0,
            m(r := \<lparr>tv_sec = tv_sec (m x) - tv_sec (m y) - 1,
                     tv_nsec = tv_nsec (m x) - tv_nsec (m y) + 1000000000\<rparr>))
      else (0, m(r := \<lparr>tv_sec = tv_sec (m x) - tv_sec (m y),
                          tv_nsec = tv_nsec (m x) - tv_nsec (m y)\<rparr>)))"
  using assms
  by (simp del: UTILS_TimespecCompare.simps
        add: set_tv_sec_def set_tv_nsec_def timespec_update_both to_long_NPS Let_def)

lemma Subtract_null:
  "x = NULL \<or> y = NULL \<or> r = NULL \<Longrightarrow> UTILS_TimespecSubtract x y r m = (- 1, m)"
  by (cases x; cases y; cases r) simp_all

lemma sint_diff_32:
  fixes a b :: "32 word"
  assumes "- (2 ^ 31) \<le> sint a - sint b" "sint a - sint b < 2 ^ 31"
  shows "sint (a - b) = sint a - sint b"
  using assms by (simp add: sint_word_ariths signed_take_bit_int_eq_self)

lemma sint_diff_borrow_32:
  fixes a b :: "32 word"
  assumes "- (2 ^ 31) \<le> sint a - sint b + 1000000000" "sint a - sint b + 1000000000 < 2 ^ 31"
  shows "sint (a - b + 1000000000) = sint a - sint b + 1000000000"
proof -
  have "a - b + 1000000000 = word_of_int (sint a - sint b + 1000000000)" by simp
  then show ?thesis using assms by (simp only: sint_wi_32)
qed

lemma Subtract_normalized:
  assumes c: "UTILS_TimespecCompare (Ptr x) (Ptr y) m = 1"
    and nx: "normalized (m x)" and ny: "normalized (m y)"
  shows "UTILS_TimespecSubtract (Ptr x) (Ptr y) (Ptr r) m =
     (0, m(r := if sint (tv_nsec (m x)) < sint (tv_nsec (m y))
                then \<lparr>tv_sec = tv_sec (m x) - tv_sec (m y) - 1,
                      tv_nsec = tv_nsec (m x) - tv_nsec (m y) + 1000000000\<rparr>
                else \<lparr>tv_sec = tv_sec (m x) - tv_sec (m y),
                      tv_nsec = tv_nsec (m x) - tv_nsec (m y)\<rparr>))"
proof -
  have d: "sint (tv_nsec (m x) - tv_nsec (m y)) = sint (tv_nsec (m x)) - sint (tv_nsec (m y))"
    using nx ny by (intro sint_diff_32) simp_all
  have e: "sint (tv_nsec (m x) - tv_nsec (m y) + 1000000000)
           = sint (tv_nsec (m x)) - sint (tv_nsec (m y)) + 1000000000"
    using nx ny by (intro sint_diff_borrow_32) simp_all
  show ?thesis
    unfolding Subtract_greater [OF c] word_sless_alt d e using nx ny by simp
qed

lemma sint_diff_64:
  fixes a b :: "64 word"
  assumes "- (2 ^ 63) \<le> sint a - sint b - c" "sint a - sint b - c < 2 ^ 63"
  shows "sint (a - b - word_of_int c) = sint a - sint b - c"
proof -
  have "a - b - word_of_int c = word_of_int (sint a - sint b - c)" by simp
  then show ?thesis using assms by (simp only: sint_wi_64)
qed

lemma Compare_greater_iff:
  "UTILS_TimespecCompare (Ptr x) (Ptr y) m = 1 \<longleftrightarrow>
     sint (tv_sec (m y)) < sint (tv_sec (m x))
     \<or> sint (tv_sec (m y)) = sint (tv_sec (m x)) \<and> sint (tv_nsec (m y)) < sint (tv_nsec (m x))"
  by (auto simp: word_sless_alt)

lemma Subtract_normalized_result:
  assumes c: "UTILS_TimespecCompare (Ptr x) (Ptr y) m = 1"
    and nx: "normalized (m x)" and ny: "normalized (m y)"
  shows "normalized (snd (UTILS_TimespecSubtract (Ptr x) (Ptr y) (Ptr r) m) r)"
proof -
  have d: "sint (tv_nsec (m x) - tv_nsec (m y)) = sint (tv_nsec (m x)) - sint (tv_nsec (m y))"
    using nx ny by (intro sint_diff_32) simp_all
  have e: "sint (tv_nsec (m x) - tv_nsec (m y) + 1000000000)
           = sint (tv_nsec (m x)) - sint (tv_nsec (m y)) + 1000000000"
    using nx ny by (intro sint_diff_borrow_32) simp_all
  show ?thesis
    unfolding Subtract_normalized [OF c nx ny] using nx ny by (simp add: d e)
qed

lemma Subtract_normalized_total:
  assumes c: "UTILS_TimespecCompare (Ptr x) (Ptr y) m = 1"
    and nx: "normalized (m x)" and ny: "normalized (m y)"
    and fit: "sint (tv_sec (m x)) - sint (tv_sec (m y)) < 2 ^ 63"
  shows "total_ns (snd (UTILS_TimespecSubtract (Ptr x) (Ptr y) (Ptr r) m) r)
           = total_ns (m x) - total_ns (m y)"
proof -
  have d: "sint (tv_nsec (m x) - tv_nsec (m y)) = sint (tv_nsec (m x)) - sint (tv_nsec (m y))"
    using nx ny by (intro sint_diff_32) simp_all
  have e: "sint (tv_nsec (m x) - tv_nsec (m y) + 1000000000)
           = sint (tv_nsec (m x)) - sint (tv_nsec (m y)) + 1000000000"
    using nx ny by (intro sint_diff_borrow_32) simp_all
  have ord: "sint (tv_sec (m y)) < sint (tv_sec (m x))
     \<or> sint (tv_sec (m y)) = sint (tv_sec (m x)) \<and> sint (tv_nsec (m y)) < sint (tv_nsec (m x))"
    using c by (simp only: Compare_greater_iff)
  show ?thesis
  proof (cases "sint (tv_nsec (m x)) < sint (tv_nsec (m y))")
    case True
    with ord have lt: "sint (tv_sec (m y)) < sint (tv_sec (m x))" by auto
    have "sint (tv_sec (m x) - tv_sec (m y) - word_of_int 1)
            = sint (tv_sec (m x)) - sint (tv_sec (m y)) - 1"
      using lt fit by (intro sint_diff_64) simp_all
    then have s: "sint (tv_sec (m x) - tv_sec (m y) - 1)
            = sint (tv_sec (m x)) - sint (tv_sec (m y)) - 1" by simp
    show ?thesis
      unfolding Subtract_normalized [OF c nx ny] using True by (simp add: s e)
  next
    case False
    from ord have le: "sint (tv_sec (m y)) \<le> sint (tv_sec (m x))" by auto
    have "sint (tv_sec (m x) - tv_sec (m y) - word_of_int 0)
            = sint (tv_sec (m x)) - sint (tv_sec (m y)) - 0"
      using le fit by (intro sint_diff_64) simp_all
    then have s: "sint (tv_sec (m x) - tv_sec (m y))
            = sint (tv_sec (m x)) - sint (tv_sec (m y))" by simp
    show ?thesis
      unfolding Subtract_normalized [OF c nx ny] using False by (simp add: s d)
  qed
qed

lemma Subtract_greater_status:
  assumes "UTILS_TimespecCompare (Ptr x) (Ptr y) m = 1"
  shows "fst (UTILS_TimespecSubtract (Ptr x) (Ptr y) (Ptr r) m) = - 1 \<longleftrightarrow>
     tv_nsec (m x) - tv_nsec (m y) <s 0
     \<and> tv_nsec (m x) - tv_nsec (m y) + 1000000000 <s 0"
  unfolding Subtract_greater [OF assms] by simp

subsection \<open>Addition\<close>

lemma wi_signed_take_bit_63:
  "(word_of_int (signed_take_bit 63 k) :: 64 word) = word_of_int k"
  by (simp add: word_of_int_eq_iff take_bit_signed_take_bit)

lemma Add_sum_word:
  "(tv_sec a * NANOSECONDS_PER_SECOND + long_to_int64 (tv_nsec a))
   + (tv_sec b * NANOSECONDS_PER_SECOND + long_to_int64 (tv_nsec b))
   = word_of_int (signed_take_bit 63 (total_ns a + total_ns b))"
  unfolding total_ns_word wi_signed_take_bit_63 by (simp only: wi_hom_syms(1))

lemma sint_signed_take_bit_63:
  "sint (word_of_int (signed_take_bit 63 k) :: 64 word) = signed_take_bit 63 k"
  by (simp add: sint_sbintrunc')

lemma Add_null:
  "x = NULL \<or> y = NULL \<or> r = NULL \<Longrightarrow> UTILS_TimespecAdd x y r m = (- 1, m)"
  by (cases x; cases y; cases r) simp_all

lemma Add_Ptr:
  "UTILS_TimespecAdd (Ptr a) (Ptr b) (Ptr c) m =
     (if signed_take_bit 63 (total_ns (m a) + total_ns (m b)) < 0 then 1 else 0,
      UTILS_NanosecondsToTimespec
        (word_of_int (signed_take_bit 63 (total_ns (m a) + total_ns (m b)))) c m)"
  by (simp only: UTILS_TimespecAdd.simps Let_def Add_sum_word word_sless_alt
        sint_signed_take_bit_63 sint_0)

lemma normalized_total_inject:
  assumes "normalized a" "normalized b" "total_ns a = total_ns b"
  shows "a = b"
proof -
  have sec: "sint (tv_sec a) = sint (tv_sec b)"
    using assms by arith
  then have "sint (tv_nsec a) = sint (tv_nsec b)"
    using assms(3) by simp
  with sec have "tv_sec a = tv_sec b" "tv_nsec a = tv_nsec b"
    by (simp_all add: signed_word_eqI)
  then show ?thesis by simp
qed

lemma Add_then_Subtract:
  assumes sy: "s \<noteq> y" and ny: "normalized (m y)" and x0: "0 \<le> total_ns (m x)"
    and ylo: "- (2 ^ 63) \<le> total_ns (m y)" and yhi: "total_ns (m y) < 2 ^ 63"
    and fit: "total_ns (m x) + total_ns (m y) < 2 ^ 63"
  shows "fst (UTILS_TimespecSubtract (Ptr s) (Ptr y) (Ptr r)
                (snd (UTILS_TimespecAdd (Ptr x) (Ptr y) (Ptr s) m))) = 0
       \<and> normalized (snd (UTILS_TimespecSubtract (Ptr s) (Ptr y) (Ptr r)
                (snd (UTILS_TimespecAdd (Ptr x) (Ptr y) (Ptr s) m))) r)
       \<and> total_ns (snd (UTILS_TimespecSubtract (Ptr s) (Ptr y) (Ptr r)
                (snd (UTILS_TimespecAdd (Ptr x) (Ptr y) (Ptr s) m))) r) = total_ns (m x)"
proof -
  define m1 where "m1 = snd (UTILS_TimespecAdd (Ptr x) (Ptr y) (Ptr s) m)"
  define res where "res = UTILS_TimespecSubtract (Ptr s) (Ptr y) (Ptr r) m1"
  define T where "T = total_ns (m x) + total_ns (m y)"
  have Tr: "- (2 ^ 63) \<le> T" "T < 2 ^ 63" using x0 ylo fit by (simp_all add: T_def)
  have S: "signed_take_bit 63 T = T" using Tr by (rule signed_take_bit_int_eq_self)
  have m1: "m1 = UTILS_NanosecondsToTimespec (word_of_int T) s m"
    unfolding m1_def Add_Ptr T_def [symmetric] S by simp
  have n1: "normalized (m1 s)" unfolding m1 by (rule NanosecondsToTimespec_normalized)
  have t1: "total_ns (m1 s) = T"
    unfolding m1 NanosecondsToTimespec_total using Tr by (rule sint_wi_64)
  have y1: "m1 y = m y" unfolding m1 using sy by (simp add: NanosecondsToTimespec_frame)
  have ny1: "normalized (m1 y)" unfolding y1 by (rule ny)
  have ge: "total_ns (m1 y) \<le> total_ns (m1 s)" unfolding t1 y1 T_def using x0 by simp
  have "fst res = 0 \<and> normalized (snd res r) \<and> total_ns (snd res r) = total_ns (m x)"
  proof (cases "total_ns (m x) = 0")
    case True
    then have "total_ns (m1 s) = total_ns (m1 y)" unfolding t1 y1 T_def by simp
    then have "m1 s = m1 y" using n1 ny1 by (intro normalized_total_inject)
    then have "UTILS_TimespecCompare (Ptr s) (Ptr y) m1 = 0" by simp
    then have "res = (0, m1(r := \<lparr>tv_sec = 0, tv_nsec = 0\<rparr>))"
      unfolding res_def by (rule Subtract_equal)
    then show ?thesis
      using True by simp
  next
    case False
    then have gt: "total_ns (m1 y) < total_ns (m1 s)" unfolding t1 y1 T_def using x0 by simp
    have "sint (tv_sec (m1 y)) < sint (tv_sec (m1 s))
       \<or> sint (tv_sec (m1 y)) = sint (tv_sec (m1 s))
          \<and> sint (tv_nsec (m1 y)) < sint (tv_nsec (m1 s))"
      using gt n1 ny1 by arith
    then have c: "UTILS_TimespecCompare (Ptr s) (Ptr y) m1 = 1"
      by (simp only: Compare_greater_iff)
    have ylo1: "- (2 ^ 63) \<le> total_ns (m1 y)" unfolding y1 by (rule ylo)
    have thi1: "total_ns (m1 s) < 2 ^ 63" unfolding t1 by (rule Tr)
    have small: "sint (tv_sec (m1 s)) - sint (tv_sec (m1 y)) < 2 ^ 63"
      using ylo1 thi1 n1 ny1 by simp
    have "fst res = 0"
      unfolding res_def Subtract_normalized [OF c n1 ny1] by simp
    moreover have "normalized (snd res r)"
      unfolding res_def using c n1 ny1 by (rule Subtract_normalized_result)
    moreover have "total_ns (snd res r) = total_ns (m1 s) - total_ns (m1 y)"
      unfolding res_def using c n1 ny1 small by (rule Subtract_normalized_total)
    ultimately show ?thesis
      unfolding t1 y1 T_def by simp
  qed
  then show ?thesis unfolding res_def m1_def .
qed

subsection \<open>Conversion to ticks\<close>

lemma ceiling_div_pos:
  fixes n k :: int
  assumes "0 < k"
  shows "\<lceil>real_of_int n / real_of_int k\<rceil> = n div k + (if n mod k = 0 then 0 else 1)"
proof -
  have "\<lceil>real_of_int n / real_of_int k\<rceil> = - (- n div k)"
    by (rule ceiling_divide_eq_div)
  also have "\<dots> = n div k + (if n mod k = 0 then 0 else 1)"
    using assms by (auto simp: zdiv_zminus1_eq_if)
  finally show ?thesis .
qed

lemma ToTicks_Ptr:
  "UTILS_TimespecToTicks cfg (Ptr p) (Ptr r) m t =
     (if \<not> normalized (m p) then Some (EINVAL, t)
      else if NANOSECONDS_PER_TICK cfg = 0 then None
      else Some (0, t(r := to_TickType
             (configTICK_RATE_HZ cfg * tv_sec (m p)
              + long_to_int64
                  (c_div (tv_nsec (m p)) (NANOSECONDS_PER_TICK cfg)
                   + (if c_mod (tv_nsec (m p)) (NANOSECONDS_PER_TICK cfg) = 0 then 0 else 1))))))"
  by (simp add: word_sless_alt word_sle_eq long_to_int64_sint NANOSECONDS_PER_SECOND_def Let_def)

lemma ToTicks_null:
  "p = NULL \<or> r = NULL \<Longrightarrow> UTILS_TimespecToTicks cfg p r m t = Some (EINVAL, t)"
  by (cases p; cases r) simp_all

lemma lNanoseconds_eq:
  fixes v k :: "32 word"
  assumes v: "0 \<le> sint v" "sint v < 1000000000" and k: "0 < sint k"
  shows "c_div v k + (if c_mod v k = 0 then 0 else 1)
         = word_of_int \<lceil>real_of_int (sint v) / real_of_int (sint k)\<rceil>"
proof -
  have k31: "sint k < 2147483648" using sint_range_32 [of k] by simp
  have d: "sint v sdiv sint k = sint v div sint k"
    using v k by (simp add: sdiv_pos_divisor)
  have md: "sint v smod sint k = sint v mod sint k"
    using v k by (simp add: smod_pos_divisor)
  have r: "0 \<le> sint v mod sint k" "sint v mod sint k < sint k"
    using k by simp_all
  have "sint (word_of_int (sint v mod sint k) :: 32 word) = sint v mod sint k"
    using r k31 by (intro sint_wi_32) simp_all
  then have z: "(word_of_int (sint v mod sint k) :: 32 word) = 0 \<longleftrightarrow> sint v mod sint k = 0"
    by (metis sint_0 word_of_int_0)
  show ?thesis
    unfolding c_div_def c_mod_def d md z ceiling_div_pos [OF k] by simp
qed

lemma sint_ceiling_ticks:
  fixes v k :: "32 word"
  assumes v: "0 \<le> sint v" "sint v < 1000000000" and k: "0 < sint k"
  shows "sint (word_of_int \<lceil>real_of_int (sint v) / real_of_int (sint k)\<rceil> :: 32 word)
         = \<lceil>real_of_int (sint v) / real_of_int (sint k)\<rceil>"
proof -
  have "0 \<le> sint v div sint k" using v k by (simp add: pos_imp_zdiv_nonneg_iff)
  moreover have "sint v div sint k \<le> sint v"
    using v by (metis div_0 int_div_le_self leI nle_le)
  ultimately show ?thesis
    unfolding ceiling_div_pos [OF k] using v by (intro sint_wi_32) simp_all
qed

lemma ToTicks_valid:
  assumes n: "normalized (m p)" and k: "0 < sint (NANOSECONDS_PER_TICK cfg)"
  shows "UTILS_TimespecToTicks cfg (Ptr p) (Ptr r) m t =
     Some (0, t(r := word_of_int
        (sint (tv_sec (m p)) * uint (configTICK_RATE_HZ cfg)
         + \<lceil>real_of_int (sint (tv_nsec (m p)))
             / real_of_int (sint (NANOSECONDS_PER_TICK cfg))\<rceil>)))"
proof -
  define c where "c = \<lceil>real_of_int (sint (tv_nsec (m p)))
             / real_of_int (sint (NANOSECONDS_PER_TICK cfg))\<rceil>"
  have k0: "NANOSECONDS_PER_TICK cfg \<noteq> 0" using k by auto
  have l: "c_div (tv_nsec (m p)) (NANOSECONDS_PER_TICK cfg)
           + (if c_mod (tv_nsec (m p)) (NANOSECONDS_PER_TICK cfg) = 0 then 0 else 1)
           = word_of_int c"
    unfolding c_def using n k by (intro lNanoseconds_eq) simp_all
  have "sint (word_of_int c :: 32 word) = c"
    unfolding c_def using n k by (intro sint_ceiling_ticks) simp_all
  then have e: "long_to_int64 (word_of_int c) = word_of_int c"
    by (simp only: long_to_int64_wi)
  have w: "configTICK_RATE_HZ cfg * tv_sec (m p) + word_of_int c
           = word_of_int (sint (tv_sec (m p)) * uint (configTICK_RATE_HZ cfg) + c)"
    by simp
  have d: "to_TickType (word_of_int (sint (tv_sec (m p)) * uint (configTICK_RATE_HZ cfg) + c))
           = word_of_int (sint (tv_sec (m p)) * uint (configTICK_RATE_HZ cfg) + c)"
    unfolding to_TickType_def by (rule ucast_down_wi) (simp add: is_down)
  show ?thesis
    unfolding ToTicks_Ptr l e w d c_def [symmetric] using n k0 by simp
qed

subsection \<open>Status codes and the frame of the tick store\<close>

lemma Compare_range: "UTILS_TimespecCompare x y m \<in> {- 1, 0, 1}"
  by (cases x; cases y) auto

lemma Subtract_status_1_iff:
  "fst (UTILS_TimespecSubtract (Ptr x) (Ptr y) (Ptr r) m) = 1
   \<longleftrightarrow> UTILS_TimespecCompare (Ptr x) (Ptr y) m = - 1"
  using Compare_range [of "Ptr x" "Ptr y" m]
  by (auto simp del: UTILS_TimespecSubtract.simps UTILS_TimespecCompare.simps
        simp add: Subtract_less Subtract_equal Subtract_greater split: if_splits)

lemma Subtract_status_range:
  "fst (UTILS_TimespecSubtract x y r m) \<in> {- 1, 0, 1}"
proof (cases "x = NULL \<or> y = NULL \<or> r = NULL")
  case True
  then show ?thesis by (simp add: Subtract_null)
next
  case False
  then obtain px py pr where p: "x = Ptr px" "y = Ptr py" "r = Ptr pr"
    by (cases x; cases y; cases r) auto
  show ?thesis
    unfolding p using Compare_range [of "Ptr px" "Ptr py" m]
    by (auto simp del: UTILS_TimespecSubtract.simps UTILS_TimespecCompare.simps
          simp add: Subtract_less Subtract_equal Subtract_greater split: if_splits)
qed

lemma Compare_enter_frame:
  "UTILS_TimespecCompare (caller_ptr a) (caller_ptr c) (enter_frame m) = UTILS_TimespecCompare a c m"
  by (cases a; cases c) (simp_all add: enter_frame_def)

lemma ToTicks_outcome:
  assumes "UTILS_TimespecToTicks cfg p r m t = Some (st, t')"
  shows "(st = 0 \<or> st = EINVAL) \<and> (st \<noteq> 0 \<longrightarrow> t' = t)
         \<and> (st = 0 \<longrightarrow> (\<exists>q v. r = Ptr q \<and> t' = t(q := v)))"
proof (cases "p = NULL \<or> r = NULL")
  case True
  then show ?thesis using assms by (auto simp: ToTicks_null EINVAL_def)
next
  case False
  then obtain pp pr where "p = Ptr pp" "r = Ptr pr" by (cases p; cases r) auto
  then show ?thesis using assms by (auto simp: ToTicks_Ptr EINVAL_def split: if_splits)
qed

lemma ToTicks_returns:
  assumes "NANOSECONDS_PER_TICK cfg \<noteq> 0"
  shows "\<exists>st t'. UTILS_TimespecToTicks cfg p r m t = Some (st, t')"
proof (cases "p = NULL \<or> r = NULL")
  case True
  then show ?thesis by (simp add: ToTicks_null)
next
  case False
  then obtain pp pr where "p = Ptr pp" "r = Ptr pr" by (cases p; cases r) auto
  then show ?thesis using assms by (simp add: ToTicks_Ptr)
qed

lemma Absolute_null:
  "a = NULL \<or> c = NULL \<or> r = NULL \<Longrightarrow>
   UTILS_AbsoluteTimespecToDeltaTicks cfg a c r m t = Some (EINVAL, t)"
  by (simp add: UTILS_AbsoluteTimespecToDeltaTicks_def EINVAL_def)

lemma Absolute_nonnull:
  assumes "a \<noteq> NULL" "c \<noteq> NULL" "r \<noteq> NULL"
  shows "UTILS_AbsoluteTimespecToDeltaTicks cfg a c r m t =
     (if fst (UTILS_TimespecSubtract (caller_ptr a) (caller_ptr c) (Ptr xDifference) (enter_frame m)) = 1
      then Some (ETIMEDOUT, t)
      else if fst (UTILS_TimespecSubtract (caller_ptr a) (caller_ptr c) (Ptr xDifference) (enter_frame m)) = - 1
      then Some (EINVAL, t)
      else UTILS_TimespecToTicks cfg (Ptr xDifference) r
             (snd (UTILS_TimespecSubtract (caller_ptr a) (caller_ptr c) (Ptr xDifference) (enter_frame m))) t)"
  using assms
    Subtract_status_range [of "caller_ptr a" "caller_ptr c" "Ptr xDifference" "enter_frame m"]
  by (auto simp: UTILS_AbsoluteTimespecToDeltaTicks_def EINVAL_def ETIMEDOUT_def
        split: prod.splits)

lemma Absolute_outcome:
  assumes "UTILS_AbsoluteTimespecToDeltaTicks cfg a c r m t = Some (st, t')"
  shows "(st = 0 \<or> st = EINVAL \<or> st = ETIMEDOUT) \<and> (st \<noteq> 0 \<longrightarrow> t' = t)
         \<and> (st = 0 \<longrightarrow> (\<exists>q v. r = Ptr q \<and> t' = t(q := v)))"
proof (cases "a = NULL \<or> c = NULL \<or> r = NULL")
  case True
  then show ?thesis using assms by (auto simp: Absolute_null EINVAL_def)
next
  case False
  then have n: "a \<noteq> NULL" "c \<noteq> NULL" "r \<noteq> NULL" by auto
  show ?thesis
    using assms unfolding Absolute_nonnull [OF n]
    using ToTicks_outcome [of cfg "Ptr xDifference" r
        "snd (UTILS_TimespecSubtract (caller_ptr a) (caller_ptr c) (Ptr xDifference) (enter_frame m))"
        t st t']
    by (auto simp: EINVAL_def ETIMEDOUT_def split: if_splits)
qed

lemma Absolute_returns:
  assumes "NANOSECONDS_PER_TICK cfg \<noteq> 0"
  shows "\<exists>st t'. UTILS_AbsoluteTimespecToDeltaTicks cfg a c r m t = Some (st, t')"
proof (cases "a = NULL \<or> c = NULL \<or> r = NULL")
  case True
  then show ?thesis by (simp add: Absolute_null)
next
  case False
  then have n: "a \<noteq> NULL" "c \<noteq> NULL" "r \<noteq> NULL" by auto
  show ?thesis
    unfolding Absolute_nonnull [OF n]
    using ToTicks_returns [OF assms, of "Ptr xDifference" r
        "snd (UTILS_TimespecSubtract (caller_ptr a) (caller_ptr c) (Ptr xDifference) (enter_frame m))"
        t]
    by simp
qed

lemma Absolute_timedout_iff:
  assumes n: "a \<noteq> NULL" "c \<noteq> NULL" "r \<noteq> NULL"
  shows "(\<exists>t'. UTILS_AbsoluteTimespecToDeltaTicks cfg a c r m t = Some (ETIMEDOUT, t'))
         \<longleftrightarrow> fst (UTILS_TimespecSubtract (caller_ptr a) (caller_ptr c) (Ptr xDifference)
                   (enter_frame m)) = 1"
  unfolding Absolute_nonnull [OF n]
  using ToTicks_outcome [of cfg "Ptr xDifference" r
        "snd (UTILS_TimespecSubtract (caller_ptr a) (caller_ptr c) (Ptr xDifference) (enter_frame m))"
        t ETIMEDOUT]
  by (auto simp: EINVAL_def ETIMEDOUT_def)

lemma Absolute_subtract_compare:
  assumes n: "a \<noteq> NULL" "c \<noteq> NULL"
  shows "fst (UTILS_TimespecSubtract (caller_ptr a) (caller_ptr c) (Ptr xDifference)
                   (enter_frame m)) = 1
         \<longleftrightarrow> UTILS_TimespecCompare a c m = - 1"
proof -
  obtain pa pc where p: "a = Ptr pa" "c = Ptr pc" using n by (cases a; cases c) auto
  have "fst (UTILS_TimespecSubtract (Ptr (Caller pa)) (Ptr (Caller pc)) (Ptr xDifference)
                   (enter_frame m)) = 1
        \<longleftrightarrow> UTILS_TimespecCompare (Ptr (Caller pa)) (Ptr (Caller pc)) (enter_frame m) = - 1"
    by (rule Subtract_status_1_iff)
  also have "UTILS_TimespecCompare (Ptr (Caller pa)) (Ptr (Caller pc)) (enter_frame m)
             = UTILS_TimespecCompare (Ptr pa) (Ptr pc) m"
    using Compare_enter_frame [of "Ptr pa" "Ptr pc" m] by simp
  finally show ?thesis unfolding p by simp
qed

section \<open>The claims\<close>

subsection \<open>Comparison\<close>

text \<open>
  Claim C9. \<^verbatim>\<open>UTILS_TimespecCompare\<close> is a three-way comparison that accepts null
  pointers: two null pointers compare equal, a non-null \<open>x\<close> is greater than a null \<open>y\<close>,
  a null \<open>x\<close> is less than a non-null \<open>y\<close>; two objects are compared on the signed value
  of \<open>tv_sec\<close> first and of \<open>tv_nsec\<close> second, with result \<open>1\<close>, \<open>-1\<close> or \<open>0\<close>. For all
  pointers (null or not) and all field values (normalized or not) swapping the arguments
  negates the result, and comparing a pointer with itself, or two objects with the same
  value, gives \<open>0\<close>.
\<close>

theorem TimespecCompare_three_way:
  "UTILS_TimespecCompare NULL NULL m = 0
   \<and> UTILS_TimespecCompare (Ptr x) NULL m = 1
   \<and> UTILS_TimespecCompare NULL (Ptr y) m = - 1
   \<and> UTILS_TimespecCompare (Ptr x) (Ptr y) m =
       (if sint (tv_sec (m y)) < sint (tv_sec (m x)) then 1
        else if sint (tv_sec (m x)) < sint (tv_sec (m y)) then - 1
        else if sint (tv_nsec (m y)) < sint (tv_nsec (m x)) then 1
        else if sint (tv_nsec (m x)) < sint (tv_nsec (m y)) then - 1
        else 0)
   \<and> UTILS_TimespecCompare p q m = - UTILS_TimespecCompare q p m
   \<and> UTILS_TimespecCompare p p m = 0
   \<and> UTILS_TimespecCompare (Ptr x) (Ptr y) (m(x := v, y := v)) = 0"
proof -
  have anti: "UTILS_TimespecCompare p q m = - UTILS_TimespecCompare q p m"
    by (cases p; cases q) (auto simp: word_sless_alt)
  have refl: "UTILS_TimespecCompare p p m = 0"
    by (cases p) simp_all
  have same: "UTILS_TimespecCompare (Ptr x) (Ptr y) (m(x := v, y := v)) = 0"
    by simp
  show ?thesis
    using anti refl same by (simp only: Compare_Ptr UTILS_TimespecCompare.simps simp_thms)
qed

theorem TimespecCompare_three_way_witness:
  "UTILS_TimespecCompare (Ptr 0) (Ptr 1)
     (zero_timespecs(0 := \<lparr>tv_sec = 5, tv_nsec = 0\<rparr>, 1 := \<lparr>tv_sec = 3, tv_nsec = 500000000\<rparr>)) = 1
   \<and> UTILS_TimespecCompare (Ptr 1) (Ptr 0)
     (zero_timespecs(0 := \<lparr>tv_sec = 5, tv_nsec = 0\<rparr>, 1 := \<lparr>tv_sec = 3, tv_nsec = 500000000\<rparr>)) = - 1
   \<and> UTILS_TimespecCompare (Ptr 0) (Ptr 1)
     (zero_timespecs(0 := \<lparr>tv_sec = - 1, tv_nsec = 2000000000\<rparr>, 1 := \<lparr>tv_sec = - 1, tv_nsec = - 7\<rparr>)) = 1"
  using TimespecCompare_three_way
    [where m = "zero_timespecs(0 := \<lparr>tv_sec = 5, tv_nsec = 0\<rparr>, 1 := \<lparr>tv_sec = 3, tv_nsec = 500000000\<rparr>)"
       and x = 0 and y = 1 and p = "Ptr 1" and q = "Ptr 0"]
    TimespecCompare_three_way
    [where m = "zero_timespecs(0 := \<lparr>tv_sec = - 1, tv_nsec = 2000000000\<rparr>, 1 := \<lparr>tv_sec = - 1, tv_nsec = - 7\<rparr>)"
       and x = 0 and y = 1 and p = NULL and q = NULL]
  by simp

subsection \<open>Validation\<close>

text \<open>
  Claim C7. \<^verbatim>\<open>UTILS_ValidateTimespec\<close> returns true if and only if the pointer is not
  null and the object has \<open>0 \<le> tv_nsec < 1000000000\<close>. The result does not depend on
  \<open>tv_sec\<close>; a null pointer gives false; \<open>tv_nsec = 1000000000\<close> gives false.
\<close>

theorem ValidateTimespec_iff:
  "(UTILS_ValidateTimespec p m \<longleftrightarrow>
      (\<exists>a. p = Ptr a \<and> 0 \<le> sint (tv_nsec (m a)) \<and> sint (tv_nsec (m a)) < 1000000000))
   \<and> UTILS_ValidateTimespec (Ptr a) (m(a := \<lparr>tv_sec = s, tv_nsec = n\<rparr>))
       = UTILS_ValidateTimespec (Ptr a) (m(a := \<lparr>tv_sec = s', tv_nsec = n\<rparr>))
   \<and> UTILS_ValidateTimespec NULL m = False
   \<and> UTILS_ValidateTimespec (Ptr a) (m(a := \<lparr>tv_sec = s, tv_nsec = 1000000000\<rparr>)) = False"
proof -
  have "UTILS_ValidateTimespec p m \<longleftrightarrow>
      (\<exists>a. p = Ptr a \<and> 0 \<le> sint (tv_nsec (m a)) \<and> sint (tv_nsec (m a)) < 1000000000)"
    by (cases p)
      (auto simp: word_sless_alt word_sle_eq long_to_int64_sint NANOSECONDS_PER_SECOND_def)
  moreover have "UTILS_ValidateTimespec (Ptr a) (m(a := \<lparr>tv_sec = s, tv_nsec = 1000000000\<rparr>)) = False"
    by (simp add: word_sless_alt long_to_int64_sint NANOSECONDS_PER_SECOND_def)
  ultimately show ?thesis by simp
qed

theorem ValidateTimespec_iff_witness:
  "UTILS_ValidateTimespec (Ptr 0) (zero_timespecs(0 := \<lparr>tv_sec = - 3, tv_nsec = 999999999\<rparr>))
   \<and> UTILS_ValidateTimespec (Ptr 0) (zero_timespecs(0 := \<lparr>tv_sec = 0, tv_nsec = - 1\<rparr>)) = False
   \<and> UTILS_ValidateTimespec (Ptr 0) (zero_timespecs(0 := \<lparr>tv_sec = 0, tv_nsec = 1000000000\<rparr>)) = False"
  using ValidateTimespec_iff
    [where p = "Ptr 0" and m = "zero_timespecs(0 := \<lparr>tv_sec = - 3, tv_nsec = 999999999\<rparr>)"
       and a = 0 and s = 0 and s' = 1 and n = 0]
    ValidateTimespec_iff
    [where p = "Ptr 0" and m = "zero_timespecs(0 := \<lparr>tv_sec = 0, tv_nsec = - 1\<rparr>)"
       and a = 0 and s = 0 and s' = 1 and n = 0]
  by (simp add: long_to_int64_def NANOSECONDS_PER_SECOND_def)

subsection \<open>Nanoseconds to timespec\<close>

text \<open>
  Claim C5. \<^verbatim>\<open>UTILS_NanosecondsToTimespec\<close> has no failure path: for every signed 64-bit
  \<open>n\<close> the timespec it writes has \<open>0 \<le> tv_nsec < 1000000000\<close> and
  \<open>tv_sec * 1000000000 + tv_nsec = n\<close> in exact integer arithmetic; it is the pair of the
  floor quotient and the non-negative remainder of \<open>n\<close> by \<open>1000000000\<close>, and no other
  object changes. For every normalized timespec \<open>t\<close> whose total nanoseconds fit in 64
  bits, the input \<open>t.tv_sec * 1000000000 + t.tv_nsec\<close> gives back \<open>t\<close>. The input \<open>-1\<close>
  gives \<open>{-1, 999999999}\<close>.
\<close>

theorem NanosecondsToTimespec_decomposes:
  "normalized (UTILS_NanosecondsToTimespec n p m p)
   \<and> total_ns (UTILS_NanosecondsToTimespec n p m p) = sint n
   \<and> UTILS_NanosecondsToTimespec n p m =
       m(p := \<lparr>tv_sec = word_of_int (sint n div 1000000000),
                tv_nsec = word_of_int (sint n mod 1000000000)\<rparr>)
   \<and> (normalized t \<and> - (2 ^ 63) \<le> total_ns t \<and> total_ns t < 2 ^ 63 \<longrightarrow>
        UTILS_NanosecondsToTimespec
          (tv_sec t * NANOSECONDS_PER_SECOND + long_to_int64 (tv_nsec t)) p m p = t)
   \<and> UTILS_NanosecondsToTimespec (- 1) p m p = \<lparr>tv_sec = - 1, tv_nsec = 999999999\<rparr>"
  using NanosecondsToTimespec_normalized [of n p m] NanosecondsToTimespec_total [of n p m]
    NanosecondsToTimespec_eq [of n p m] NanosecondsToTimespec_roundtrip [of t p m]
    NanosecondsToTimespec_minus_one [of p m]
  by blast

theorem NanosecondsToTimespec_decomposes_witness:
  "UTILS_NanosecondsToTimespec (- 2500000001) 0 zero_timespecs 0
     = \<lparr>tv_sec = - 3, tv_nsec = 499999999\<rparr>
   \<and> UTILS_NanosecondsToTimespec (7 * NANOSECONDS_PER_SECOND + long_to_int64 999999999)
       0 zero_timespecs 0 = \<lparr>tv_sec = 7, tv_nsec = 999999999\<rparr>
   \<and> UTILS_NanosecondsToTimespec (- 1) 0 zero_timespecs 0 = \<lparr>tv_sec = - 1, tv_nsec = 999999999\<rparr>"
  using NanosecondsToTimespec_decomposes
    [where n = "- 2500000001" and p = 0 and m = zero_timespecs
       and t = "\<lparr>tv_sec = 7, tv_nsec = 999999999\<rparr>"]
  by simp

subsection \<open>Subtraction\<close>

text \<open>
  Claim C3. For non-null \<open>x\<close>, \<open>y\<close> and \<open>pxResult\<close> (aliased or not): when
  \<^verbatim>\<open>UTILS_TimespecCompare\<close> gives \<open>-1\<close>, \<^verbatim>\<open>UTILS_TimespecSubtract\<close> returns \<open>1\<close> and leaves
  the memory as it was; when it gives \<open>0\<close>, the function writes \<open>{0, 0}\<close> and returns \<open>0\<close>;
  when it gives \<open>1\<close> and both operands are normalized, the function returns \<open>0\<close> and
  writes the difference of the fields, with one second borrowed when
  \<open>x.tv_nsec < y.tv_nsec\<close>: the result is normalized, and its total nanoseconds are the
  difference of the totals whenever the difference of the seconds fits in 64 bits. The
  worked example \<open>{5, 0} - {3, 500000000} = {1, 500000000}\<close> follows.
\<close>

theorem TimespecSubtract_by_compare:
  "(UTILS_TimespecCompare (Ptr x) (Ptr y) m = - 1 \<longrightarrow>
      UTILS_TimespecSubtract (Ptr x) (Ptr y) (Ptr r) m = (1, m))
   \<and> (UTILS_TimespecCompare (Ptr x) (Ptr y) m = 0 \<longrightarrow>
      UTILS_TimespecSubtract (Ptr x) (Ptr y) (Ptr r) m
        = (0, m(r := \<lparr>tv_sec = 0, tv_nsec = 0\<rparr>)))
   \<and> (UTILS_TimespecCompare (Ptr x) (Ptr y) m = 1 \<and> normalized (m x) \<and> normalized (m y) \<longrightarrow>
      UTILS_TimespecSubtract (Ptr x) (Ptr y) (Ptr r) m
        = (0, m(r := if sint (tv_nsec (m x)) < sint (tv_nsec (m y))
                     then \<lparr>tv_sec = tv_sec (m x) - tv_sec (m y) - 1,
                           tv_nsec = tv_nsec (m x) - tv_nsec (m y) + 1000000000\<rparr>
                     else \<lparr>tv_sec = tv_sec (m x) - tv_sec (m y),
                           tv_nsec = tv_nsec (m x) - tv_nsec (m y)\<rparr>))
      \<and> normalized (snd (UTILS_TimespecSubtract (Ptr x) (Ptr y) (Ptr r) m) r)
      \<and> (sint (tv_sec (m x)) - sint (tv_sec (m y)) < 2 ^ 63 \<longrightarrow>
           total_ns (snd (UTILS_TimespecSubtract (Ptr x) (Ptr y) (Ptr r) m) r)
             = total_ns (m x) - total_ns (m y)))"
  using Subtract_less [of x y m r] Subtract_equal [of x y m r] Subtract_normalized [of x y m r]
    Subtract_normalized_result [of x y m r] Subtract_normalized_total [of x y m r]
  by blast

theorem TimespecSubtract_by_compare_witness:
  "UTILS_TimespecSubtract (Ptr 0) (Ptr 1) (Ptr 2)
     (zero_timespecs(0 := \<lparr>tv_sec = 5, tv_nsec = 0\<rparr>, 1 := \<lparr>tv_sec = 3, tv_nsec = 500000000\<rparr>))
   = (0, zero_timespecs(0 := \<lparr>tv_sec = 5, tv_nsec = 0\<rparr>,
                        1 := \<lparr>tv_sec = 3, tv_nsec = 500000000\<rparr>,
                        2 := \<lparr>tv_sec = 1, tv_nsec = 500000000\<rparr>))"
  using TimespecSubtract_by_compare
    [where x = 0 and y = 1 and r = 2
       and m = "zero_timespecs(0 := \<lparr>tv_sec = 5, tv_nsec = 0\<rparr>, 1 := \<lparr>tv_sec = 3, tv_nsec = 500000000\<rparr>)"]
  by simp

text \<open>
  Claim C4, as amended. For non-null \<open>x\<close>, \<open>y\<close> and \<open>pxResult\<close> with
  \<^verbatim>\<open>UTILS_TimespecCompare\<close> giving \<open>1\<close> and with \<open>x\<close> and \<open>y\<close> normalized,
  \<^verbatim>\<open>UTILS_TimespecSubtract\<close> never returns \<open>-1\<close>. Without normalization the branch is
  reachable: with the comparison giving \<open>1\<close>, the function returns \<open>-1\<close> exactly when the
  difference of the \<open>tv_nsec\<close> fields is negative and still negative after one second
  has been borrowed.
\<close>

theorem TimespecSubtract_error_unreachable_normalized:
  "(UTILS_TimespecCompare (Ptr x) (Ptr y) m = 1 \<and> normalized (m x) \<and> normalized (m y) \<longrightarrow>
      fst (UTILS_TimespecSubtract (Ptr x) (Ptr y) (Ptr r) m) \<noteq> - 1)
   \<and> (UTILS_TimespecCompare (Ptr x) (Ptr y) m = 1 \<longrightarrow>
      (fst (UTILS_TimespecSubtract (Ptr x) (Ptr y) (Ptr r) m) = - 1 \<longleftrightarrow>
         tv_nsec (m x) - tv_nsec (m y) <s 0
         \<and> tv_nsec (m x) - tv_nsec (m y) + 1000000000 <s 0))"
proof -
  have "fst (UTILS_TimespecSubtract (Ptr x) (Ptr y) (Ptr r) m) \<noteq> - 1"
    if "UTILS_TimespecCompare (Ptr x) (Ptr y) m = 1" "normalized (m x)" "normalized (m y)"
    using Subtract_normalized [of x y m r] that by simp
  then show ?thesis
    using Subtract_greater_status [of x y m r] by blast
qed

theorem TimespecSubtract_error_unreachable_normalized_witness:
  "fst (UTILS_TimespecSubtract (Ptr 0) (Ptr 1) (Ptr 2)
     (zero_timespecs(0 := \<lparr>tv_sec = 5, tv_nsec = 0\<rparr>, 1 := \<lparr>tv_sec = 3, tv_nsec = 500000000\<rparr>)))
   \<noteq> - 1"
  using TimespecSubtract_error_unreachable_normalized
    [where x = 0 and y = 1 and r = 2
       and m = "zero_timespecs(0 := \<lparr>tv_sec = 5, tv_nsec = 0\<rparr>, 1 := \<lparr>tv_sec = 3, tv_nsec = 500000000\<rparr>)"]
  by simp

text \<open>
  Claim C4 as first stated, for all timespecs, fails: \<open>{1, 0}\<close> compares greater than
  \<open>{0, 1000000001}\<close>, and subtracting the second from the first returns \<open>-1\<close>.
\<close>

theorem TimespecSubtract_error_reachable:
  "UTILS_TimespecCompare (Ptr 0) (Ptr 1)
     (zero_timespecs(0 := \<lparr>tv_sec = 1, tv_nsec = 0\<rparr>, 1 := \<lparr>tv_sec = 0, tv_nsec = 1000000001\<rparr>)) = 1
   \<and> fst (UTILS_TimespecSubtract (Ptr 0) (Ptr 1) (Ptr 2)
     (zero_timespecs(0 := \<lparr>tv_sec = 1, tv_nsec = 0\<rparr>, 1 := \<lparr>tv_sec = 0, tv_nsec = 1000000001\<rparr>)))
     = - 1"
  by (simp add: set_tv_sec_def set_tv_nsec_def to_long_NPS word_sless_alt Let_def)

subsection \<open>Addition\<close>

text \<open>
  Claim C6. \<^verbatim>\<open>UTILS_TimespecAdd\<close> returns \<open>-1\<close> and leaves the memory as it was when one
  of its three pointers is null. Otherwise, with \<open>S\<close> the 64-bit signed sum of the two
  totals \<open>tv_sec * 1000000000 + tv_nsec\<close> (the exact sum reduced to 64 bits, and the exact
  sum itself when that fits), it leaves the memory that \<^verbatim>\<open>UTILS_NanosecondsToTimespec\<close>
  leaves for \<open>S\<close>: the object at \<open>pxResult\<close> is normalized and has \<open>S\<close> total
  nanoseconds, and no other object changes. It returns \<open>1\<close> when \<open>S\<close> is negative and \<open>0\<close>
  otherwise, never \<open>-1\<close>.
\<close>

theorem TimespecAdd_result:
  "(x = NULL \<or> y = NULL \<or> r = NULL \<longrightarrow> UTILS_TimespecAdd x y r m = (- 1, m))
   \<and> (let S = signed_take_bit 63 (total_ns (m a) + total_ns (m b));
           res = UTILS_TimespecAdd (Ptr a) (Ptr b) (Ptr c) m
       in fst res = (if S < 0 then 1 else 0)
          \<and> fst res \<noteq> - 1
          \<and> snd res = UTILS_NanosecondsToTimespec (word_of_int S) c m
          \<and> normalized (snd res c)
          \<and> total_ns (snd res c) = S
          \<and> (\<forall>d. d \<noteq> c \<longrightarrow> snd res d = m d)
          \<and> (- (2 ^ 63) \<le> total_ns (m a) + total_ns (m b)
               \<and> total_ns (m a) + total_ns (m b) < 2 ^ 63
               \<longrightarrow> S = total_ns (m a) + total_ns (m b)))"
proof -
  define S where "S = signed_take_bit 63 (total_ns (m a) + total_ns (m b))"
  have 1: "UTILS_TimespecAdd (Ptr a) (Ptr b) (Ptr c) m =
     (if S < 0 then 1 else 0, UTILS_NanosecondsToTimespec (word_of_int S) c m)"
    unfolding S_def by (rule Add_Ptr)
  have 2: "normalized (UTILS_NanosecondsToTimespec (word_of_int S :: 64 word) c m c)"
    by (rule NanosecondsToTimespec_normalized)
  have 3: "total_ns (UTILS_NanosecondsToTimespec (word_of_int S :: 64 word) c m c) = S"
    unfolding NanosecondsToTimespec_total S_def by (rule sint_signed_take_bit_63)
  have 4: "\<forall>d. d \<noteq> c \<longrightarrow> UTILS_NanosecondsToTimespec (word_of_int S) c m d = m d"
    by (simp add: NanosecondsToTimespec_frame)
  have 5: "- (2 ^ 63) \<le> total_ns (m a) + total_ns (m b)
               \<and> total_ns (m a) + total_ns (m b) < 2 ^ 63
               \<longrightarrow> S = total_ns (m a) + total_ns (m b)"
    unfolding S_def by (simp add: signed_take_bit_int_eq_self)
  have 6: "x = NULL \<or> y = NULL \<or> r = NULL \<longrightarrow> UTILS_TimespecAdd x y r m = (- 1, m)"
    using Add_null by blast
  show ?thesis
    unfolding Let_def S_def [symmetric] 1 fst_conv snd_conv
    using 2 3 4 5 6 by simp
qed

theorem TimespecAdd_result_witness:
  "UTILS_TimespecAdd (Ptr 0) (Ptr 1) (Ptr 2)
     (zero_timespecs(0 := \<lparr>tv_sec = 5, tv_nsec = 600000000\<rparr>, 1 := \<lparr>tv_sec = - 7, tv_nsec = 500000000\<rparr>))
   = (1, zero_timespecs(0 := \<lparr>tv_sec = 5, tv_nsec = 600000000\<rparr>,
                        1 := \<lparr>tv_sec = - 7, tv_nsec = 500000000\<rparr>,
                        2 := \<lparr>tv_sec = - 1, tv_nsec = 100000000\<rparr>))
   \<and> UTILS_TimespecAdd (Ptr 0) NULL (Ptr 2) zero_timespecs = (- 1, zero_timespecs)"
  using TimespecAdd_result
    [where a = 0 and b = 1 and c = 2 and x = "Ptr 0" and y = NULL and r = "Ptr 2"
       and m = "zero_timespecs(0 := \<lparr>tv_sec = 5, tv_nsec = 600000000\<rparr>, 1 := \<lparr>tv_sec = - 7, tv_nsec = 500000000\<rparr>)"]
    TimespecAdd_result
    [where a = 0 and b = 1 and c = 2 and x = "Ptr 0" and y = NULL and r = "Ptr 2"
       and m = zero_timespecs]
  by (simp add: Let_def NanosecondsToTimespec_eq)

subsection \<open>Addition followed by subtraction\<close>

text \<open>
  Claim C8, as amended. Let \<open>x\<close> and \<open>y\<close> be non-null, \<open>y\<close> normalized, the total
  nanoseconds of \<open>x\<close> non-negative, and the totals of \<open>y\<close> and of the sum within the signed
  64-bit range; let \<open>s\<close> be an object other than \<open>y\<close>. Then \<^verbatim>\<open>UTILS_TimespecAdd(x, y, &s)\<close>
  followed by \<^verbatim>\<open>UTILS_TimespecSubtract(&s, y, &r)\<close> returns \<open>0\<close> and leaves in \<open>r\<close> the
  normalized timespec with the total nanoseconds of \<open>x\<close>, which is \<open>x\<close> itself when \<open>x\<close>
  is normalized.
\<close>

theorem TimespecAdd_then_Subtract_inverse:
  assumes "s \<noteq> y" and "normalized (m y)" and "0 \<le> total_ns (m x)"
    and "- (2 ^ 63) \<le> total_ns (m y)" and "total_ns (m y) < 2 ^ 63"
    and "total_ns (m x) + total_ns (m y) < 2 ^ 63"
  shows "fst (UTILS_TimespecSubtract (Ptr s) (Ptr y) (Ptr r)
                (snd (UTILS_TimespecAdd (Ptr x) (Ptr y) (Ptr s) m))) = 0
       \<and> normalized (snd (UTILS_TimespecSubtract (Ptr s) (Ptr y) (Ptr r)
                (snd (UTILS_TimespecAdd (Ptr x) (Ptr y) (Ptr s) m))) r)
       \<and> total_ns (snd (UTILS_TimespecSubtract (Ptr s) (Ptr y) (Ptr r)
                (snd (UTILS_TimespecAdd (Ptr x) (Ptr y) (Ptr s) m))) r) = total_ns (m x)
       \<and> (normalized (m x) \<longrightarrow>
            snd (UTILS_TimespecSubtract (Ptr s) (Ptr y) (Ptr r)
                (snd (UTILS_TimespecAdd (Ptr x) (Ptr y) (Ptr s) m))) r = m x)"
proof -
  note main = Add_then_Subtract [OF assms, of r]
  have "snd (UTILS_TimespecSubtract (Ptr s) (Ptr y) (Ptr r)
                (snd (UTILS_TimespecAdd (Ptr x) (Ptr y) (Ptr s) m))) r = m x"
    if "normalized (m x)"
    using main that by (intro normalized_total_inject) blast+
  then show ?thesis using main by blast
qed

theorem TimespecAdd_then_Subtract_inverse_witness:
  "fst (UTILS_TimespecSubtract (Ptr 2) (Ptr 1) (Ptr 3)
     (snd (UTILS_TimespecAdd (Ptr 0) (Ptr 1) (Ptr 2)
        (zero_timespecs(0 := \<lparr>tv_sec = 1, tv_nsec = 999999999\<rparr>,
                        1 := \<lparr>tv_sec = 2, tv_nsec = 1\<rparr>))))) = 0
   \<and> snd (UTILS_TimespecSubtract (Ptr 2) (Ptr 1) (Ptr 3)
     (snd (UTILS_TimespecAdd (Ptr 0) (Ptr 1) (Ptr 2)
        (zero_timespecs(0 := \<lparr>tv_sec = 1, tv_nsec = 999999999\<rparr>,
                        1 := \<lparr>tv_sec = 2, tv_nsec = 1\<rparr>))))) 3
     = \<lparr>tv_sec = 1, tv_nsec = 999999999\<rparr>"
proof -
  let ?m = "zero_timespecs(0 := \<lparr>tv_sec = 1, tv_nsec = 999999999\<rparr>,
                           1 := \<lparr>tv_sec = 2, tv_nsec = (1 :: long)\<rparr>)"
  have v: "?m 0 = \<lparr>tv_sec = 1, tv_nsec = 999999999\<rparr>" by simp
  have n: "normalized (?m 0)" by simp
  have h: "(2 :: nat) \<noteq> 1" "normalized (?m 1)" "0 \<le> total_ns (?m 0)"
    "- (2 ^ 63) \<le> total_ns (?m 1)" "total_ns (?m 1) < 2 ^ 63"
    "total_ns (?m 0) + total_ns (?m 1) < 2 ^ 63"
    by simp_all
  note t = TimespecAdd_then_Subtract_inverse [where r = 3, OF h]
  from t have a: "fst (UTILS_TimespecSubtract (Ptr 2) (Ptr 1) (Ptr 3)
     (snd (UTILS_TimespecAdd (Ptr 0) (Ptr 1) (Ptr 2) ?m))) = 0"
    by (rule conjunct1)
  from t n have "snd (UTILS_TimespecSubtract (Ptr 2) (Ptr 1) (Ptr 3)
     (snd (UTILS_TimespecAdd (Ptr 0) (Ptr 1) (Ptr 2) ?m))) 3 = ?m 0"
    by blast
  then have b: "snd (UTILS_TimespecSubtract (Ptr 2) (Ptr 1) (Ptr 3)
     (snd (UTILS_TimespecAdd (Ptr 0) (Ptr 1) (Ptr 2) ?m))) 3
     = \<lparr>tv_sec = 1, tv_nsec = 999999999\<rparr>"
    by (simp only: v)
  from a b show ?thesis by (rule conjI)
qed

text \<open>
  Claim C8 as first stated, for all timespecs whose totals do not overflow, fails in two
  ways. For the negative \<open>x = {-1, 0}\<close> and \<open>y = {0, 0}\<close> the sum is less than \<open>y\<close>: the
  subtraction returns \<open>1\<close> and leaves \<open>r\<close> as it was. For \<open>x = {1, 0}\<close> and the
  non-normalized \<open>y = {0, 2000000000}\<close> the subtraction returns \<open>-1\<close>.
\<close>

theorem TimespecAdd_then_Subtract_not_inverse:
  "fst (UTILS_TimespecSubtract (Ptr 2) (Ptr 1) (Ptr 3)
     (snd (UTILS_TimespecAdd (Ptr 0) (Ptr 1) (Ptr 2)
        (zero_timespecs(0 := \<lparr>tv_sec = - 1, tv_nsec = 0\<rparr>))))) = 1
   \<and> snd (UTILS_TimespecSubtract (Ptr 2) (Ptr 1) (Ptr 3)
     (snd (UTILS_TimespecAdd (Ptr 0) (Ptr 1) (Ptr 2)
        (zero_timespecs(0 := \<lparr>tv_sec = - 1, tv_nsec = 0\<rparr>))))) 3
     = \<lparr>tv_sec = 0, tv_nsec = 0\<rparr>
   \<and> fst (UTILS_TimespecSubtract (Ptr 2) (Ptr 1) (Ptr 3)
     (snd (UTILS_TimespecAdd (Ptr 0) (Ptr 1) (Ptr 2)
        (zero_timespecs(0 := \<lparr>tv_sec = 1, tv_nsec = 0\<rparr>,
                        1 := \<lparr>tv_sec = 0, tv_nsec = 2000000000\<rparr>))))) = - 1"
proof (intro conjI)
  show "fst (UTILS_TimespecSubtract (Ptr 2) (Ptr 1) (Ptr 3)
     (snd (UTILS_TimespecAdd (Ptr 0) (Ptr 1) (Ptr 2)
        (zero_timespecs(0 := \<lparr>tv_sec = - 1, tv_nsec = 0\<rparr>))))) = 1"
    by code_simp
  show "snd (UTILS_TimespecSubtract (Ptr 2) (Ptr 1) (Ptr 3)
     (snd (UTILS_TimespecAdd (Ptr 0) (Ptr 1) (Ptr 2)
        (zero_timespecs(0 := \<lparr>tv_sec = - 1, tv_nsec = 0\<rparr>))))) 3
     = \<lparr>tv_sec = 0, tv_nsec = 0\<rparr>"
    by code_simp
  show "fst (UTILS_TimespecSubtract (Ptr 2) (Ptr 1) (Ptr 3)
     (snd (UTILS_TimespecAdd (Ptr 0) (Ptr 1) (Ptr 2)
        (zero_timespecs(0 := \<lparr>tv_sec = 1, tv_nsec = 0\<rparr>,
                        1 := \<lparr>tv_sec = 0, tv_nsec = 2000000000\<rparr>))))) = - 1"
    by code_simp
qed

subsection \<open>Timespec to ticks\<close>

text \<open>
  Claim C1, as amended. For a non-null normalized timespec with \<open>tv_sec \<ge> 0\<close>, a non-null
  output pointer and \<^verbatim>\<open>NANOSECONDS_PER_TICK\<close> positive, \<^verbatim>\<open>UTILS_TimespecToTicks\<close> returns
  \<open>0\<close> and writes \<open>tv_sec * configTICK_RATE_HZ + ceil(tv_nsec / NANOSECONDS_PER_TICK)\<close>
  reduced modulo \<open>2 ^ 32\<close>, the width of \<^verbatim>\<open>TickType_t\<close>: the written tick count is that
  number exactly whenever it is below \<open>2 ^ 32\<close>. Any non-zero remainder of the nanoseconds
  rounds up to one more tick; \<open>{0, 1}\<close> gives \<open>1\<close> tick whenever
  \<^verbatim>\<open>NANOSECONDS_PER_TICK\<close> is greater than \<open>1\<close>.
\<close>

theorem TimespecToTicks_rounds_up:
  assumes "normalized (m p)" and "0 \<le> sint (tv_sec (m p))"
    and "0 < sint (NANOSECONDS_PER_TICK cfg)"
  shows "UTILS_TimespecToTicks cfg (Ptr p) (Ptr r) m t
           = Some (0, t(r := word_of_int (exact_ticks cfg (m p))))
       \<and> uint (word_of_int (exact_ticks cfg (m p)) :: TickType_t)
           = exact_ticks cfg (m p) mod 2 ^ 32
       \<and> (exact_ticks cfg (m p) < 2 ^ 32 \<longrightarrow>
            uint (word_of_int (exact_ticks cfg (m p)) :: TickType_t) = exact_ticks cfg (m p))
       \<and> (tv_sec (m p) = 0 \<and> tv_nsec (m p) = 1 \<and> 1 < sint (NANOSECONDS_PER_TICK cfg) \<longrightarrow>
            UTILS_TimespecToTicks cfg (Ptr p) (Ptr r) m t = Some (0, t(r := 1)))"
proof -
  define e where "e = exact_ticks cfg (m p)"
  have v: "UTILS_TimespecToTicks cfg (Ptr p) (Ptr r) m t = Some (0, t(r := word_of_int e))"
    unfolding e_def using assms(1,3) by (rule ToTicks_valid)
  have u: "uint (word_of_int e :: TickType_t) = e mod 2 ^ 32"
    by (simp add: uint_word_of_int_eq take_bit_eq_mod)
  have "0 \<le> sint (tv_nsec (m p)) div sint (NANOSECONDS_PER_TICK cfg)
            + (if sint (tv_nsec (m p)) mod sint (NANOSECONDS_PER_TICK cfg) = 0 then 0 else 1)"
    using assms by (simp add: pos_imp_zdiv_nonneg_iff)
  then have "0 \<le> \<lceil>real_of_int (sint (tv_nsec (m p)))
             / real_of_int (sint (NANOSECONDS_PER_TICK cfg))\<rceil>"
    by (simp only: ceiling_div_pos [OF assms(3)])
  moreover have "0 \<le> sint (tv_sec (m p)) * uint (configTICK_RATE_HZ cfg)"
    using assms(2) by simp
  ultimately have e0: "0 \<le> e" unfolding e_def by (rule add_nonneg_nonneg [rotated])
  have f: "e < 2 ^ 32 \<longrightarrow> uint (word_of_int e :: TickType_t) = e"
    unfolding u using e0 by simp
  have o: "e = 1"
    if a: "tv_sec (m p) = 0" "tv_nsec (m p) = 1" "1 < sint (NANOSECONDS_PER_TICK cfg)"
  proof -
    have "\<lceil>real_of_int (sint (tv_nsec (m p)))
             / real_of_int (sint (NANOSECONDS_PER_TICK cfg))\<rceil>
          = sint (tv_nsec (m p)) div sint (NANOSECONDS_PER_TICK cfg)
            + (if sint (tv_nsec (m p)) mod sint (NANOSECONDS_PER_TICK cfg) = 0 then 0 else 1)"
      using assms(3) by (rule ceiling_div_pos)
    also have "\<dots> = 1" using a by simp
    finally have c: "\<lceil>real_of_int (sint (tv_nsec (m p)))
             / real_of_int (sint (NANOSECONDS_PER_TICK cfg))\<rceil> = 1" .
    show ?thesis unfolding e_def c using a(1) by simp
  qed
  from v u f o show ?thesis unfolding e_def [symmetric] by auto
qed

theorem TimespecToTicks_rounds_up_witness:
  "UTILS_TimespecToTicks \<lparr>configTICK_RATE_HZ = 1000, NANOSECONDS_PER_TICK = 1000000\<rparr>
     (Ptr 0) (Ptr 0) (zero_timespecs(0 := \<lparr>tv_sec = 0, tv_nsec = 1\<rparr>)) zero_ticks
   = Some (0, zero_ticks(0 := 1))
   \<and> UTILS_TimespecToTicks \<lparr>configTICK_RATE_HZ = 1000, NANOSECONDS_PER_TICK = 1000000\<rparr>
     (Ptr 0) (Ptr 0) (zero_timespecs(0 := \<lparr>tv_sec = 1, tv_nsec = 0\<rparr>)) zero_ticks
   = Some (0, zero_ticks(0 := 1000))"
proof -
  let ?cfg = "\<lparr>configTICK_RATE_HZ = 1000, NANOSECONDS_PER_TICK = 1000000\<rparr>"
  let ?m = "zero_timespecs(0 := \<lparr>tv_sec = 0, tv_nsec = (1 :: long)\<rparr>)"
  let ?m' = "zero_timespecs(0 := \<lparr>tv_sec = 1, tv_nsec = (0 :: long)\<rparr>)"
  have h: "normalized (?m 0)" "0 \<le> sint (tv_sec (?m 0))" "0 < sint (NANOSECONDS_PER_TICK ?cfg)"
    by simp_all
  have g: "tv_sec (?m 0) = 0 \<and> tv_nsec (?m 0) = 1 \<and> 1 < sint (NANOSECONDS_PER_TICK ?cfg)"
    by simp
  from TimespecToTicks_rounds_up
         [where m = ?m and p = 0 and cfg = ?cfg and r = 0 and t = zero_ticks, OF h] g
  have a: "UTILS_TimespecToTicks ?cfg (Ptr 0) (Ptr 0) ?m zero_ticks = Some (0, zero_ticks(0 := 1))"
    by blast
  have h': "normalized (?m' 0)" "0 \<le> sint (tv_sec (?m' 0))"
    "0 < sint (NANOSECONDS_PER_TICK ?cfg)"
    by simp_all
  have e: "exact_ticks ?cfg (?m' 0) = 1000"
    by simp
  from TimespecToTicks_rounds_up
         [where m = ?m' and p = 0 and cfg = ?cfg and r = 0 and t = zero_ticks, OF h']
  have "UTILS_TimespecToTicks ?cfg (Ptr 0) (Ptr 0) ?m' zero_ticks
        = Some (0, zero_ticks(0 := word_of_int (exact_ticks ?cfg (?m' 0))))"
    by (rule conjunct1)
  then have b: "UTILS_TimespecToTicks ?cfg (Ptr 0) (Ptr 0) ?m' zero_ticks
                = Some (0, zero_ticks(0 := 1000))"
    unfolding e by simp
  from a b show ?thesis by (rule conjI)
qed

text \<open>
  Claim C1 as first stated, with the exact number for every non-negative \<open>tv_sec\<close>,
  fails: at \<open>1000\<close> ticks per second the timespec \<open>{4294968, 0}\<close>, a little under fifty
  days, has \<open>4294968000\<close> ticks, and the function writes \<open>704\<close>.
\<close>

theorem TimespecToTicks_truncates:
  "UTILS_TimespecToTicks \<lparr>configTICK_RATE_HZ = 1000, NANOSECONDS_PER_TICK = 1000000\<rparr>
     (Ptr 0) (Ptr 0) (zero_timespecs(0 := \<lparr>tv_sec = 4294968, tv_nsec = 0\<rparr>)) zero_ticks
   = Some (0, zero_ticks(0 := 704))
   \<and> exact_ticks \<lparr>configTICK_RATE_HZ = 1000, NANOSECONDS_PER_TICK = 1000000\<rparr>
       \<lparr>tv_sec = 4294968, tv_nsec = 0\<rparr> = 4294968000"
proof -
  let ?cfg = "\<lparr>configTICK_RATE_HZ = 1000, NANOSECONDS_PER_TICK = 1000000\<rparr>"
  let ?m = "zero_timespecs(0 := \<lparr>tv_sec = 4294968, tv_nsec = (0 :: long)\<rparr>)"
  have h: "normalized (?m 0)" "0 < sint (NANOSECONDS_PER_TICK ?cfg)"
    by simp_all
  have v: "UTILS_TimespecToTicks ?cfg (Ptr 0) (Ptr 0) ?m zero_ticks
        = Some (0, zero_ticks(0 := word_of_int (exact_ticks ?cfg (?m 0))))"
    using h by (rule ToTicks_valid)
  have e: "exact_ticks ?cfg (?m 0) = 4294968000"
    by simp
  have w: "(word_of_int 4294968000 :: TickType_t) = 704"
    by simp
  have e': "exact_ticks ?cfg \<lparr>tv_sec = 4294968, tv_nsec = 0\<rparr> = 4294968000"
    by simp
  from v e' show ?thesis unfolding e w by (rule conjI)
qed

subsection \<open>The output tick count on failure\<close>

text \<open>
  Claim C10. Whenever \<^verbatim>\<open>UTILS_TimespecToTicks\<close> or
  \<^verbatim>\<open>UTILS_AbsoluteTimespecToDeltaTicks\<close> returns a non-zero status, which is \<^verbatim>\<open>EINVAL\<close>
  or, for the second, \<^verbatim>\<open>ETIMEDOUT\<close>, the store of tick counts is as it was: \<open>*pxResult\<close>
  is not written. With status \<open>0\<close> the store differs at most at the object \<open>pxResult\<close>
  points to. Both functions return whenever \<^verbatim>\<open>NANOSECONDS_PER_TICK\<close> is not zero.
\<close>

theorem tick_conversion_failure_atomic:
  "(UTILS_TimespecToTicks cfg p r m t = Some (st, t') \<longrightarrow>
      (st \<noteq> 0 \<longrightarrow> t' = t)
      \<and> (st = 0 \<longrightarrow> (\<exists>q v. r = Ptr q \<and> t' = t(q := v)))
      \<and> (st = 0 \<or> st = EINVAL))
   \<and> (UTILS_AbsoluteTimespecToDeltaTicks cfg a c r m t = Some (st, t') \<longrightarrow>
      (st \<noteq> 0 \<longrightarrow> t' = t)
      \<and> (st = 0 \<longrightarrow> (\<exists>q v. r = Ptr q \<and> t' = t(q := v)))
      \<and> (st = 0 \<or> st = EINVAL \<or> st = ETIMEDOUT))
   \<and> (NANOSECONDS_PER_TICK cfg \<noteq> 0 \<longrightarrow>
      (\<exists>s u. UTILS_TimespecToTicks cfg p r m t = Some (s, u))
      \<and> (\<exists>s u. UTILS_AbsoluteTimespecToDeltaTicks cfg a c r m t = Some (s, u)))
   \<and> EINVAL \<noteq> 0 \<and> ETIMEDOUT \<noteq> 0"
proof -
  have 1: "UTILS_TimespecToTicks cfg p r m t = Some (st, t') \<longrightarrow>
      (st \<noteq> 0 \<longrightarrow> t' = t)
      \<and> (st = 0 \<longrightarrow> (\<exists>q v. r = Ptr q \<and> t' = t(q := v)))
      \<and> (st = 0 \<or> st = EINVAL)"
    using ToTicks_outcome [of cfg p r m t st t'] by blast
  have 2: "UTILS_AbsoluteTimespecToDeltaTicks cfg a c r m t = Some (st, t') \<longrightarrow>
      (st \<noteq> 0 \<longrightarrow> t' = t)
      \<and> (st = 0 \<longrightarrow> (\<exists>q v. r = Ptr q \<and> t' = t(q := v)))
      \<and> (st = 0 \<or> st = EINVAL \<or> st = ETIMEDOUT)"
    using Absolute_outcome [of cfg a c r m t st t'] by blast
  have 3: "NANOSECONDS_PER_TICK cfg \<noteq> 0 \<longrightarrow>
      (\<exists>s u. UTILS_TimespecToTicks cfg p r m t = Some (s, u))
      \<and> (\<exists>s u. UTILS_AbsoluteTimespecToDeltaTicks cfg a c r m t = Some (s, u))"
    using ToTicks_returns [of cfg p r m t] Absolute_returns [of cfg a c r m t] by blast
  have 4: "EINVAL \<noteq> 0 \<and> ETIMEDOUT \<noteq> 0"
    by (simp add: EINVAL_def ETIMEDOUT_def)
  from 1 2 3 4 show ?thesis by (intro conjI) blast+
qed

theorem tick_conversion_failure_atomic_witness:
  "UTILS_TimespecToTicks \<lparr>configTICK_RATE_HZ = 1000, NANOSECONDS_PER_TICK = 1000000\<rparr>
     (Ptr 0) (Ptr 0) (zero_timespecs(0 := \<lparr>tv_sec = 0, tv_nsec = 1000000000\<rparr>))
     (zero_ticks(0 := 77)) = Some (EINVAL, zero_ticks(0 := 77))
   \<and> UTILS_AbsoluteTimespecToDeltaTicks
       \<lparr>configTICK_RATE_HZ = 1000, NANOSECONDS_PER_TICK = 1000000\<rparr>
       (Ptr 0) (Ptr 1) (Ptr 0)
       (zero_timespecs(0 := \<lparr>tv_sec = 5, tv_nsec = 0\<rparr>, 1 := \<lparr>tv_sec = 10, tv_nsec = 0\<rparr>))
       (zero_ticks(0 := 77)) = Some (ETIMEDOUT, zero_ticks(0 := 77))"
proof -
  let ?cfg = "\<lparr>configTICK_RATE_HZ = 1000, NANOSECONDS_PER_TICK = 1000000\<rparr>"
  let ?m1 = "zero_timespecs(0 := \<lparr>tv_sec = 0, tv_nsec = 1000000000\<rparr>)"
  let ?m2 = "zero_timespecs(0 := \<lparr>tv_sec = 5, tv_nsec = 0\<rparr>, 1 := \<lparr>tv_sec = 10, tv_nsec = 0\<rparr>)"
  let ?t = "zero_ticks(0 := 77)"
  have k: "NANOSECONDS_PER_TICK ?cfg \<noteq> 0" by simp
  obtain s1 u1 where r1: "UTILS_TimespecToTicks ?cfg (Ptr 0) (Ptr 0) ?m1 ?t = Some (s1, u1)"
    using ToTicks_returns [OF k] by blast
  have "s1 = EINVAL"
    using r1 by (simp add: ToTicks_Ptr del: UTILS_TimespecToTicks.simps)
  moreover from this have "s1 \<noteq> 0" by (simp add: EINVAL_def)
  ultimately have a: "UTILS_TimespecToTicks ?cfg (Ptr 0) (Ptr 0) ?m1 ?t = Some (EINVAL, ?t)"
    using r1 tick_conversion_failure_atomic
      [where cfg = ?cfg and p = "Ptr 0" and r = "Ptr 0" and m = ?m1 and t = ?t
         and st = s1 and t' = u1 and a = NULL and c = NULL]
    by blast
  obtain s2 u2 where r2:
    "UTILS_AbsoluteTimespecToDeltaTicks ?cfg (Ptr 0) (Ptr 1) (Ptr 0) ?m2 ?t = Some (s2, u2)"
    using Absolute_returns [OF k] by blast
  have "s2 = ETIMEDOUT"
    using r2 by (simp add: Absolute_nonnull Subtract_less enter_frame_def
        del: UTILS_TimespecSubtract.simps)
  moreover from this have "s2 \<noteq> 0" by (simp add: ETIMEDOUT_def)
  ultimately have b:
    "UTILS_AbsoluteTimespecToDeltaTicks ?cfg (Ptr 0) (Ptr 1) (Ptr 0) ?m2 ?t = Some (ETIMEDOUT, ?t)"
    using r2 tick_conversion_failure_atomic
      [where cfg = ?cfg and p = NULL and r = "Ptr 0" and m = ?m2 and t = ?t
         and st = s2 and t' = u2 and a = "Ptr 0" and c = "Ptr 1"]
    by blast
  from a b show ?thesis by (rule conjI)
qed

subsection \<open>Absolute time to a tick delta\<close>

text \<open>
  Claim C2. \<^verbatim>\<open>UTILS_AbsoluteTimespecToDeltaTicks\<close> returns \<^verbatim>\<open>EINVAL\<close> when one of its
  three pointers is null. Otherwise it subtracts the current time from the absolute time
  into its local \<open>xDifference\<close>: when the subtraction reports \<open>-1\<close> it returns
  \<^verbatim>\<open>EINVAL\<close>; it returns \<^verbatim>\<open>ETIMEDOUT\<close>, a code other than \<^verbatim>\<open>EINVAL\<close>, exactly when the
  subtraction reports \<open>1\<close>, which is exactly when the absolute time compares less than
  the current time; otherwise the subtraction has reported \<open>0\<close> and the function does
  what \<^verbatim>\<open>UTILS_TimespecToTicks\<close> does on the difference: it returns that status and
  leaves that tick store. Target \<open>{5, 0}\<close> with current time \<open>{10, 0}\<close> gives
  \<^verbatim>\<open>ETIMEDOUT\<close>; target \<open>{10, 1}\<close> with current time \<open>{5, 0}\<close> at \<open>1000\<close> ticks per second
  writes \<open>5001\<close>.
\<close>

theorem AbsoluteTimespecToDeltaTicks_status:
  "(a = NULL \<or> c = NULL \<or> r = NULL \<longrightarrow>
      UTILS_AbsoluteTimespecToDeltaTicks cfg a c r m t = Some (EINVAL, t))
   \<and> (a \<noteq> NULL \<and> c \<noteq> NULL \<and> r \<noteq> NULL \<longrightarrow>
      (let sub = UTILS_TimespecSubtract (caller_ptr a) (caller_ptr c) (Ptr xDifference)
                   (enter_frame m);
           res = UTILS_AbsoluteTimespecToDeltaTicks cfg a c r m t
       in (fst sub = - 1 \<longrightarrow> res = Some (EINVAL, t))
          \<and> (fst sub = 1 \<longrightarrow> res = Some (ETIMEDOUT, t))
          \<and> ((\<exists>t'. res = Some (ETIMEDOUT, t')) \<longleftrightarrow> fst sub = 1)
          \<and> (fst sub = 1 \<longleftrightarrow> UTILS_TimespecCompare a c m = - 1)
          \<and> (fst sub \<noteq> 1 \<and> fst sub \<noteq> - 1 \<longrightarrow>
               fst sub = 0
               \<and> res = UTILS_TimespecToTicks cfg (Ptr xDifference) r (snd sub) t)))
   \<and> EINVAL \<noteq> ETIMEDOUT \<and> EINVAL \<noteq> 0 \<and> ETIMEDOUT \<noteq> 0"
proof -
  have 1: "a = NULL \<or> c = NULL \<or> r = NULL \<longrightarrow>
      UTILS_AbsoluteTimespecToDeltaTicks cfg a c r m t = Some (EINVAL, t)"
    using Absolute_null [of a c r cfg m t] by blast
  have 2: "(let sub = UTILS_TimespecSubtract (caller_ptr a) (caller_ptr c) (Ptr xDifference)
                   (enter_frame m);
           res = UTILS_AbsoluteTimespecToDeltaTicks cfg a c r m t
       in (fst sub = - 1 \<longrightarrow> res = Some (EINVAL, t))
          \<and> (fst sub = 1 \<longrightarrow> res = Some (ETIMEDOUT, t))
          \<and> ((\<exists>t'. res = Some (ETIMEDOUT, t')) \<longleftrightarrow> fst sub = 1)
          \<and> (fst sub = 1 \<longleftrightarrow> UTILS_TimespecCompare a c m = - 1)
          \<and> (fst sub \<noteq> 1 \<and> fst sub \<noteq> - 1 \<longrightarrow>
               fst sub = 0
               \<and> res = UTILS_TimespecToTicks cfg (Ptr xDifference) r (snd sub) t))"
    if n: "a \<noteq> NULL" "c \<noteq> NULL" "r \<noteq> NULL"
    unfolding Let_def
    using Absolute_nonnull [OF n, of cfg m t] Absolute_timedout_iff [OF n, of cfg m t]
      Absolute_subtract_compare [OF n(1,2), of m]
      Subtract_status_range [of "caller_ptr a" "caller_ptr c" "Ptr xDifference" "enter_frame m"]
    by auto
  have 3: "EINVAL \<noteq> ETIMEDOUT \<and> EINVAL \<noteq> 0 \<and> ETIMEDOUT \<noteq> 0"
    by (simp add: EINVAL_def ETIMEDOUT_def)
  from 1 2 3 show ?thesis by blast
qed

theorem AbsoluteTimespecToDeltaTicks_status_witness:
  "UTILS_AbsoluteTimespecToDeltaTicks
       \<lparr>configTICK_RATE_HZ = 1000, NANOSECONDS_PER_TICK = 1000000\<rparr>
       (Ptr 0) (Ptr 1) (Ptr 0)
       (zero_timespecs(0 := \<lparr>tv_sec = 5, tv_nsec = 0\<rparr>, 1 := \<lparr>tv_sec = 10, tv_nsec = 0\<rparr>))
       zero_ticks = Some (ETIMEDOUT, zero_ticks)
   \<and> UTILS_AbsoluteTimespecToDeltaTicks
       \<lparr>configTICK_RATE_HZ = 1000, NANOSECONDS_PER_TICK = 1000000\<rparr>
       (Ptr 0) (Ptr 1) (Ptr 0)
       (zero_timespecs(0 := \<lparr>tv_sec = 10, tv_nsec = 1\<rparr>, 1 := \<lparr>tv_sec = 5, tv_nsec = 0\<rparr>))
       zero_ticks = Some (0, zero_ticks(0 := 5001))"
proof -
  let ?cfg = "\<lparr>configTICK_RATE_HZ = 1000, NANOSECONDS_PER_TICK = 1000000\<rparr>"
  let ?m = "zero_timespecs(0 := \<lparr>tv_sec = 5, tv_nsec = 0\<rparr>, 1 := \<lparr>tv_sec = 10, tv_nsec = (0 :: long)\<rparr>)"
  let ?m' = "zero_timespecs(0 := \<lparr>tv_sec = 10, tv_nsec = 1\<rparr>, 1 := \<lparr>tv_sec = 5, tv_nsec = (0 :: long)\<rparr>)"
  have n: "Ptr (0 :: nat) \<noteq> NULL \<and> Ptr (1 :: nat) \<noteq> NULL \<and> Ptr (0 :: nat) \<noteq> NULL"
    by simp
  have c: "UTILS_TimespecCompare (Ptr 0) (Ptr 1) ?m = - 1"
    by simp
  from AbsoluteTimespecToDeltaTicks_status
         [where a = "Ptr 0" and c = "Ptr 1" and r = "Ptr 0" and m = ?m and cfg = ?cfg
            and t = zero_ticks]
       n c
  have a: "UTILS_AbsoluteTimespecToDeltaTicks ?cfg (Ptr 0) (Ptr 1) (Ptr 0) ?m zero_ticks
           = Some (ETIMEDOUT, zero_ticks)"
    unfolding Let_def by blast
  have s: "UTILS_TimespecSubtract (Ptr (Caller 0)) (Ptr (Caller 1)) (Ptr xDifference)
             (enter_frame ?m')
           = (0, (enter_frame ?m')(xDifference := \<lparr>tv_sec = 5, tv_nsec = 1\<rparr>))"
    by (simp add: Subtract_normalized enter_frame_def del: UTILS_TimespecSubtract.simps)
  have cl: "\<lceil>(1 :: real) / 1000000\<rceil> = 1"
    by (simp add: ceiling_eq_iff)
  have k: "UTILS_TimespecToTicks ?cfg (Ptr xDifference) (Ptr 0)
             ((enter_frame ?m')(xDifference := \<lparr>tv_sec = 5, tv_nsec = 1\<rparr>)) zero_ticks
           = Some (0, zero_ticks(0 := 5001))"
    by (simp add: ToTicks_valid cl del: UTILS_TimespecToTicks.simps)
  from AbsoluteTimespecToDeltaTicks_status
         [where a = "Ptr 0" and c = "Ptr 1" and r = "Ptr 0" and m = ?m' and cfg = ?cfg
            and t = zero_ticks]
       n s k
  have b: "UTILS_AbsoluteTimespecToDeltaTicks ?cfg (Ptr 0) (Ptr 1) (Ptr 0) ?m' zero_ticks
           = Some (0, zero_ticks(0 := 5001))"
    unfolding Let_def
    by (simp del: UTILS_TimespecSubtract.simps UTILS_TimespecToTicks.simps
          UTILS_TimespecCompare.simps)
  from a b show ?thesis by (rule conjI)
qed

end
